theory Spec2Isabelle
  imports Complex_Main
begin

section \<open>Data model (shared/fileAnalysis.ts, lib/scanHistory.ts)\<close>

text \<open>
  The interfaces of \<^verbatim>\<open>shared/fileAnalysis.ts\<close> become records, the string-literal union
  types become datatypes. A \<^verbatim>\<open>Date\<close> is its millisecond count. Field names shared by two
  interfaces carry a prefix. Two fields of \<^verbatim>\<open>DetectionResult\<close> are left out: \<^verbatim>\<open>id\<close> (built
  from the clock and the random generator) and \<^verbatim>\<open>evidence\<close> (display text, partly formatted
  floating point); no function reads them.
\<close>

datatype threat = CLEAN | SUSPICIOUS | MALICIOUS | CRITICAL

datatype severity = LOW | MEDIUM | HIGH | SEV_CRITICAL

datatype scan_status = SCANNING | COMPLETED | FAILED

datatype prevalence = RARE | UNCOMMON | COMMON | WIDESPREAD

type_synonym date = int

record UploadedFile =
  file_id :: string
  file_name :: string
  file_size :: nat
  file_type :: string
  uploadedAt :: date
  content :: "nat list option"
  file_hash :: string

record DetectionResult =
  category :: string
  severity :: severity
  description :: string
  confidence :: int

record Detections =
  malwareSignatures :: "DetectionResult list"
  suspiciousPatterns :: "DetectionResult list"
  fileIntegrity :: "DetectionResult list"
  behaviorAnalysis :: "DetectionResult list"

record FileProperties =
  fileType :: string
  actualType :: string
  prop_size :: nat
  entropy :: real
  isEncrypted :: bool
  hasExecutableCode :: bool
  suspiciousNames :: "string list"

record ThreatIntelligence =
  knownMalware :: bool
  familyName :: "string option"
  firstSeen :: "date option"
  prevalence :: prevalence

record FileAnalysisResult =
  result_id :: string
  res_file :: UploadedFile
  status :: scan_status
  overallThreat :: threat
  riskScore :: int
  scanProgress :: nat
  startTime :: date
  endTime :: "date option"
  detections :: Detections
  fileProperties :: FileProperties
  recommendations :: "string list"
  threatIntelligence :: ThreatIntelligence

record ScanSession =
  session_id :: string
  files :: "FileAnalysisResult list"
  session_startTime :: date
  totalFiles :: nat
  completedFiles :: nat
  threatsFound :: nat
  cleanFiles :: nat

record HistoricalScan =
  hist_id :: string
  sessionId :: string
  timestamp :: date
  hist_totalFiles :: nat
  hist_threatsFound :: nat
  hist_cleanFiles :: nat
  avgRiskScore :: int
  duration :: int
  results :: "FileAnalysisResult list"
  tags :: "string list"
  scan_notes :: "string option"

text \<open>The string a value of the union type \<^verbatim>\<open>overallThreat\<close> is at run time.\<close>

fun threat_str :: "threat \<Rightarrow> string" where
  "threat_str CLEAN = ''CLEAN''"
| "threat_str SUSPICIOUS = ''SUSPICIOUS''"
| "threat_str MALICIOUS = ''MALICIOUS''"
| "threat_str CRITICAL = ''CRITICAL''"

section \<open>JavaScript library functions used by the code\<close>

text \<open>
  \<^verbatim>\<open>Math.round\<close> rounds to the nearest integer, a tie going up. Numbers are modelled as
  exact real numbers, not as IEEE doubles.
\<close>

definition Math_round :: "real \<Rightarrow> int" where
  "Math_round x = \<lfloor>x + 1 / 2\<rfloor>"

text \<open>\<^verbatim>\<open>String.prototype.toLowerCase\<close>, on the ASCII letters.\<close>

definition lower_char :: "char \<Rightarrow> char" where
  "lower_char c =
     (case map_of (zip ''ABCDEFGHIJKLMNOPQRSTUVWXYZ'' ''abcdefghijklmnopqrstuvwxyz'') c of
        None \<Rightarrow> c
      | Some l \<Rightarrow> l)"

definition toLowerCase :: "string \<Rightarrow> string" where
  "toLowerCase s = map lower_char s"

fun startsWith :: "string \<Rightarrow> string \<Rightarrow> bool" where
  "startsWith s [] = True"
| "startsWith [] (p # ps) = False"
| "startsWith (c # cs) (p # ps) = (c = p \<and> startsWith cs ps)"

definition endsWith :: "string \<Rightarrow> string \<Rightarrow> bool" where
  "endsWith s p = startsWith (rev s) (rev p)"

text \<open>\<^verbatim>\<open>s.includes(p)\<close>: \<^verbatim>\<open>p\<close> occurs in \<^verbatim>\<open>s\<close> as a contiguous substring.\<close>

fun str_includes :: "string \<Rightarrow> string \<Rightarrow> bool" where
  "str_includes [] p = (p = [])"
| "str_includes (c # cs) p = (startsWith (c # cs) p \<or> str_includes cs p)"

text \<open>\<^verbatim>\<open>s.split(sep)\<close> for a one-character separator: never the empty array.\<close>

fun split :: "string \<Rightarrow> char \<Rightarrow> string list" where
  "split [] sep = [[]]"
| "split (c # cs) sep =
     (if c = sep then [] # split cs sep
      else (case split cs sep of [] \<Rightarrow> [[c]] | p # ps \<Rightarrow> (c # p) # ps))"

text \<open>\<^verbatim>\<open>parts.pop()\<close> as a value: the last element, \<^verbatim>\<open>undefined\<close> for the empty array.\<close>

definition pop :: "'a list \<Rightarrow> 'a option" where
  "pop xs = (if xs = [] then None else Some (last xs))"

text \<open>
  A \<^verbatim>\<open>Set\<close> is a duplicate-free list in insertion order, which is the order in which the
  spread \<^verbatim>\<open>[...set]\<close> and \<^verbatim>\<open>Array.from(set)\<close> enumerate it.
\<close>

definition Set_add :: "'a list \<Rightarrow> 'a \<Rightarrow> 'a list" where
  "Set_add s x = (if x \<in> set s then s else s @ [x])"


section \<open>The history store (lib/scanHistory.ts)\<close>

text \<open>
  \<^verbatim>\<open>localStorage\<close> under the key of the store holds no item, a text that does not parse
  to a list of entries, or the serialised list. Serialising and parsing again restores every
  modelled field (the dates are restored by \<^verbatim>\<open>getHistory\<close>), so the stored document is the list.
  The browser decides whether a write succeeds: the medium maps the document to be written to
  the exception \<^verbatim>\<open>setItem\<close> throws, if any.
\<close>

datatype storage_error = QuotaExceededError | SecurityError

datatype stored_item = NoItem | Unparseable | Stored "HistoricalScan list"

type_synonym medium = "HistoricalScan list \<Rightarrow> storage_error option"

definition MAX_HISTORY_ITEMS :: nat where
  "MAX_HISTORY_ITEMS = 1000"

definition setItem :: "medium \<Rightarrow> stored_item \<Rightarrow> HistoricalScan list \<Rightarrow> storage_error + stored_item" where
  "setItem m st history = (case m history of Some e \<Rightarrow> Inl e | None \<Rightarrow> Inr (Stored history))"

definition getHistory :: "stored_item \<Rightarrow> HistoricalScan list" where
  "getHistory st = (case st of NoItem \<Rightarrow> [] | Unparseable \<Rightarrow> [] | Stored h \<Rightarrow> h)"

text \<open>
  \<^verbatim>\<open>saveHistory\<close>: \<^verbatim>\<open>Inl\<close> is an exception leaving the function, \<^verbatim>\<open>Inr\<close> the store after
  a normal return. The second \<^verbatim>\<open>setItem\<close> stands inside the \<^verbatim>\<open>catch\<close> block, outside any
  \<^verbatim>\<open>try\<close>.
\<close>

definition saveHistory :: "medium \<Rightarrow> stored_item \<Rightarrow> HistoricalScan list \<Rightarrow> storage_error + stored_item" where
  "saveHistory m st history =
     (case setItem m st history of
        Inr st' \<Rightarrow> Inr st'
      | Inl error \<Rightarrow>
          if error = QuotaExceededError
          then (let reduced = take (length history div 2) history in setItem m st reduced)
          else Inr st)"

definition risk_tag :: "int \<Rightarrow> string" where
  "risk_tag score =
     (if score \<ge> 80 then ''critical-risk''
      else if score \<ge> 60 then ''high-risk''
      else if score \<ge> 30 then ''medium-risk''
      else ''low-risk'')"

definition autoTags_step :: "string list \<Rightarrow> FileAnalysisResult \<Rightarrow> string list" where
  "autoTags_step tags0 result =
     (let tags1 = Set_add tags0 (toLowerCase (threat_str (overallThreat result)));
          extension = map_option toLowerCase (pop (split (file_name (res_file result)) CHR ''.''));
          tags2 = (case extension of
                     None \<Rightarrow> tags1
                   | Some e \<Rightarrow> if e \<noteq> [] then Set_add tags1 (''file-'' @ e) else tags1);
          tags3 = Set_add tags2 (risk_tag (riskScore result));
          tags4 = (if length (malwareSignatures (detections result)) > 0
                   then Set_add tags3 ''malware-detected'' else tags3);
          tags5 = (if length (suspiciousPatterns (detections result)) > 0
                   then Set_add tags4 ''suspicious-patterns'' else tags4);
          tags6 = (if length (fileIntegrity (detections result)) > 0
                   then Set_add tags5 ''integrity-issues'' else tags5);
          tags7 = (if length (behaviorAnalysis (detections result)) > 0
                   then Set_add tags6 ''behavioral-threats'' else tags6)
      in tags7)"

definition generateAutoTags :: "FileAnalysisResult list \<Rightarrow> string list" where
  "generateAutoTags rs = foldl autoTags_step [] rs"

text \<open>
  The entry \<^verbatim>\<open>saveHistoricalScan\<close> builds. Its id comes from the clock and the random
  generator and is a parameter here.
\<close>

definition strip_content :: "FileAnalysisResult \<Rightarrow> FileAnalysisResult" where
  "strip_content r = r\<lparr>res_file := (res_file r)\<lparr>content := None\<rparr>\<rparr>"

definition historicalScan :: "string \<Rightarrow> ScanSession \<Rightarrow> FileAnalysisResult list \<Rightarrow> HistoricalScan" where
  "historicalScan new_id session rs =
     (let threats = length (filter (\<lambda>r. overallThreat r \<noteq> CLEAN) rs);
          clean = length (filter (\<lambda>r. overallThreat r = CLEAN) rs);
          avg = (if length rs > 0
                 then Math_round (of_int (foldl (\<lambda>sum r. sum + riskScore r) 0 rs) / of_nat (length rs))
                 else 0)
      in \<lparr>hist_id = new_id,
          sessionId = session_id session,
          timestamp = session_startTime session,
          hist_totalFiles = length rs,
          hist_threatsFound = threats,
          hist_cleanFiles = clean,
          avgRiskScore = avg,
          duration = (case rs of
                        [] \<Rightarrow> 0
                      | r0 # _ \<Rightarrow> (case endTime r0 of
                                    None \<Rightarrow> 0
                                  | Some t \<Rightarrow> Math_round (of_int (t - session_startTime session) / 1000))),
          results = map strip_content rs,
          tags = generateAutoTags rs,
          scan_notes = None\<rparr>)"

definition saveHistoricalScan ::
  "medium \<Rightarrow> stored_item \<Rightarrow> string \<Rightarrow> ScanSession \<Rightarrow> FileAnalysisResult list \<Rightarrow> storage_error + stored_item" where
  "saveHistoricalScan m st new_id session rs =
     (let history = historicalScan new_id session rs # getHistory st;
          history' = (if length history > MAX_HISTORY_ITEMS then take MAX_HISTORY_ITEMS history else history)
      in saveHistory m st history')"

definition filterHistoryByThreatLevel :: "stored_item \<Rightarrow> string \<Rightarrow> HistoricalScan list" where
  "filterHistoryByThreatLevel st threatLevel =
     (let history = getHistory st
      in if threatLevel = ''ALL'' then history
         else filter (\<lambda>scan. list_ex (\<lambda>result. threat_str (overallThreat result) = threatLevel) (results scan))
                history)"



section \<open>The analysis engine (lib/fileAnalysisEngine.ts)\<close>

definition maliciousPatterns :: "string list" where
  "maliciousPatterns =
     [''backdoor'', ''trojan'', ''virus'', ''malware'', ''keylogger'', ''ransomware'',
      ''cryptominer'', ''rootkit'', ''spyware'', ''adware'', ''exploit'']"

definition suspiciousExtensions :: "string list" where
  "suspiciousExtensions =
     [''.exe'', ''.scr'', ''.bat'', ''.cmd'', ''.com'', ''.pif'', ''.vbs'', ''.js'',
      ''.jar'', ''.zip'', ''.rar'', ''.7z'']"

definition maliciousHashes :: "string list" where
  "maliciousHashes =
     [''a1b2c3d4e5f6789'', ''malware123456789'', ''trojan987654321'', ''backdoor111111111'']"

text \<open>
  What one run of \<^verbatim>\<open>analyzeFile\<close> takes from outside the program: the id of the result, the
  two readings of the clock, and the value of each call of \<^verbatim>\<open>Math.random()\<close> whose result
  the analysis depends on, named after the place of the call.
\<close>

record file_env =
  new_result_id :: string
  clock_start :: date
  clock_end :: date
  rnd_entropy :: real
  rnd_signature :: real
  rnd_behavior :: real
  rnd_behavior_pick :: real
  rnd_strings :: real

definition detection :: "string \<Rightarrow> severity \<Rightarrow> string \<Rightarrow> int \<Rightarrow> DetectionResult" where
  "detection c s d n = \<lparr>category = c, severity = s, description = d, confidence = n\<rparr>"

definition push_malwareSignatures :: "DetectionResult \<Rightarrow> FileAnalysisResult \<Rightarrow> FileAnalysisResult" where
  "push_malwareSignatures d result =
     result\<lparr>detections := (detections result)\<lparr>malwareSignatures := malwareSignatures (detections result) @ [d]\<rparr>\<rparr>"

definition push_suspiciousPatterns :: "DetectionResult \<Rightarrow> FileAnalysisResult \<Rightarrow> FileAnalysisResult" where
  "push_suspiciousPatterns d result =
     result\<lparr>detections := (detections result)\<lparr>suspiciousPatterns := suspiciousPatterns (detections result) @ [d]\<rparr>\<rparr>"

definition push_fileIntegrity :: "DetectionResult \<Rightarrow> FileAnalysisResult \<Rightarrow> FileAnalysisResult" where
  "push_fileIntegrity d result =
     result\<lparr>detections := (detections result)\<lparr>fileIntegrity := fileIntegrity (detections result) @ [d]\<rparr>\<rparr>"

definition push_behaviorAnalysis :: "DetectionResult \<Rightarrow> FileAnalysisResult \<Rightarrow> FileAnalysisResult" where
  "push_behaviorAnalysis d result =
     result\<lparr>detections := (detections result)\<lparr>behaviorAnalysis := behaviorAnalysis (detections result) @ [d]\<rparr>\<rparr>"

definition pattern_step :: "string \<Rightarrow> FileAnalysisResult \<Rightarrow> string \<Rightarrow> FileAnalysisResult" where
  "pattern_step fileName result pattern =
     (if str_includes fileName pattern
      then push_malwareSignatures
             (detection ''Malicious Filename Pattern'' HIGH
                (''Filename contains suspicious pattern: '' @ pattern) 85) result
      else result)"

definition scanForMalwareSignatures :: "file_env \<Rightarrow> FileAnalysisResult \<Rightarrow> FileAnalysisResult" where
  "scanForMalwareSignatures env result =
     (let f = res_file result;
          r1 = (if file_hash f \<in> set maliciousHashes
                then (push_malwareSignatures
                        (detection ''Known Malware Hash'' SEV_CRITICAL
                           ''File hash matches known malware signature'' 98) result)
                     \<lparr>threatIntelligence := (threatIntelligence result)
                        \<lparr>knownMalware := True, familyName := Some ''Generic.Malware''\<rparr>\<rparr>
                else result);
          fileName = toLowerCase (file_name f);
          r2 = foldl (pattern_step fileName) r1 maliciousPatterns
      in if list_ex (\<lambda>ext. endsWith fileName ext) suspiciousExtensions
         then (let r3 = r2\<lparr>fileProperties := (fileProperties r2)\<lparr>hasExecutableCode := True\<rparr>\<rparr>
               in if rnd_signature env > 7 / 10
                  then push_malwareSignatures
                         (detection ''Malware Signature'' SEV_CRITICAL
                            ''File contains known malware signature'' 95) r3
                  else r3)
         else r2)"

definition scanForSuspiciousPatterns :: "FileAnalysisResult \<Rightarrow> FileAnalysisResult" where
  "scanForSuspiciousPatterns result =
     (let f = res_file result;
          fileExt = (case pop (split (toLowerCase (file_name f)) CHR ''.'') of
                       None \<Rightarrow> ''undefined'' | Some e \<Rightarrow> e);
          r1 = (if (''.'' @ fileExt) \<in> set suspiciousExtensions
                then push_suspiciousPatterns
                       (detection ''Suspicious File Extension'' MEDIUM
                          (''File has potentially dangerous extension: .'' @ fileExt) 70) result
                else result);
          parts = split (file_name f) CHR ''.'';
          r2 = (if length parts > 2
                then push_suspiciousPatterns
                       (detection ''Double Extension'' HIGH
                          ''File uses double extension, common in malware'' 80) r1
                else r1);
          r3 = (if file_size f < 1024 \<and> endsWith (file_name f) ''.exe''
                then push_suspiciousPatterns
                       (detection ''Size Anomaly'' MEDIUM ''Executable file unusually small'' 65) r2
                else r2)
      in if file_size f > 100 * 1024 * 1024
         then push_suspiciousPatterns
                (detection ''Size Anomaly'' LOW
                   ''File unusually large, may contain hidden payload'' 50) r3
         else r3)"

definition analyzeFileIntegrity :: "FileAnalysisResult \<Rightarrow> FileAnalysisResult" where
  "analyzeFileIntegrity result =
     (let f = res_file result;
          e = entropy (fileProperties result);
          r1 = (if e > 75 / 10
                then push_fileIntegrity
                       (detection ''High Entropy'' MEDIUM
                          ''File has high entropy, may be encrypted or packed'' 75)
                       (result\<lparr>fileProperties := (fileProperties result)\<lparr>isEncrypted := True\<rparr>\<rparr>)
                else result);
          declaredType = file_type f;
          actual = actualType (fileProperties r1)
      in if declaredType \<noteq> [] \<and> actual \<noteq> [] \<and> declaredType \<noteq> actual
         then push_fileIntegrity
                (detection ''Type Mismatch'' HIGH
                   ''File extension does not match actual file type'' 90) r1
         else r1)"

definition behaviors :: "string list" where
  "behaviors =
     [''Network communication to suspicious domains'',
      ''Registry modification attempts'',
      ''File system monitoring'',
      ''Process injection techniques'',
      ''Anti-debugging mechanisms'']"

text \<open>An array read: \<^verbatim>\<open>undefined\<close> (here its printed form) outside the array.\<close>

definition behavior_at :: "int \<Rightarrow> string" where
  "behavior_at i = (if 0 \<le> i \<and> i < int (length behaviors) then behaviors ! nat i else ''undefined'')"

definition performBehaviorAnalysis :: "file_env \<Rightarrow> FileAnalysisResult \<Rightarrow> FileAnalysisResult" where
  "performBehaviorAnalysis env result =
     (let r1 = (if hasExecutableCode (fileProperties result)
                then (if rnd_behavior env > 6 / 10
                      then (let behavior = behavior_at \<lfloor>rnd_behavior_pick env * of_nat (length behaviors)\<rfloor>
                            in push_behaviorAnalysis
                                 (detection ''Suspicious Behavior'' HIGH behavior 82) result)
                      else result)
                else result)
      in if rnd_strings env > 8 / 10
         then push_behaviorAnalysis
                (detection ''Suspicious Strings'' MEDIUM ''File contains suspicious text patterns'' 70) r1
         else r1)"

fun severityScore :: "severity \<Rightarrow> real" where
  "severityScore LOW = 10"
| "severityScore MEDIUM = 25"
| "severityScore HIGH = 50"
| "severityScore SEV_CRITICAL = 80"

text \<open>
  The body of the loop of \<^verbatim>\<open>calculateFinalRisk\<close> on the pair of its two local variables.
  \<^verbatim>\<open>maxSeverity\<close> is written by the loop and never read afterwards.
\<close>

definition risk_step :: "real \<times> threat \<Rightarrow> DetectionResult \<Rightarrow> real \<times> threat" where
  "risk_step acc d =
     (let risk = fst acc + severityScore (severity d) * (of_int (confidence d) / 100);
          maxSeverity = snd acc
      in (risk,
          if severity d = SEV_CRITICAL then CRITICAL
          else if severity d = HIGH \<and> maxSeverity \<noteq> CRITICAL then MALICIOUS
          else if severity d = MEDIUM \<and> maxSeverity \<notin> {CRITICAL, MALICIOUS} then SUSPICIOUS
          else maxSeverity))"

text \<open>The recommendation texts without the pictograph each starts with in the source.\<close>

definition generateRecommendations :: "FileAnalysisResult \<Rightarrow> FileAnalysisResult" where
  "generateRecommendations result =
     (if overallThreat result = CRITICAL \<or> overallThreat result = MALICIOUS
      then result\<lparr>recommendations := recommendations result @
             [''DO NOT EXECUTE this file - it contains malware'',
              ''Delete the file immediately'',
              ''Scan your system for infections'',
              ''Update antivirus signatures'']\<rparr>
      else if overallThreat result = SUSPICIOUS
      then result\<lparr>recommendations := recommendations result @
             [''Exercise caution with this file'',
              ''Perform additional analysis before execution'',
              ''Consider running in a sandboxed environment'',
              ''Verify file source and authenticity'']\<rparr>
      else result\<lparr>recommendations := recommendations result @
             [''File appears to be clean'',
              ''Regular scans recommended'',
              ''Continue monitoring file behavior'']\<rparr>)"

definition allDetections :: "FileAnalysisResult \<Rightarrow> DetectionResult list" where
  "allDetections result =
     malwareSignatures (detections result) @ suspiciousPatterns (detections result) @
     fileIntegrity (detections result) @ behaviorAnalysis (detections result)"

definition calculateFinalRisk :: "FileAnalysisResult \<Rightarrow> FileAnalysisResult" where
  "calculateFinalRisk result =
     (let acc = foldl risk_step (0, CLEAN) (allDetections result);
          r1 = result\<lparr>riskScore := min (Math_round (fst acc)) 100\<rparr>;
          r2 = (if riskScore r1 \<ge> 80 then r1\<lparr>overallThreat := CRITICAL\<rparr>
                else if riskScore r1 \<ge> 60 then r1\<lparr>overallThreat := MALICIOUS\<rparr>
                else if riskScore r1 \<ge> 30 then r1\<lparr>overallThreat := SUSPICIOUS\<rparr>
                else r1\<lparr>overallThreat := CLEAN\<rparr>)
      in generateRecommendations r2)"

text \<open>
  \<^verbatim>\<open>detectFileType\<close>: the table is an association list; a name outside it gives the
  default (properties an object literal inherits are not modelled).
\<close>

definition typeMap :: "(string \<times> string) list" where
  "typeMap =
     [(''exe'', ''application/x-executable''),
      (''pdf'', ''application/pdf''),
      (''doc'', ''application/msword''),
      (''docx'', ''application/vnd.openxmlformats-officedocument.wordprocessingml.document''),
      (''zip'', ''application/zip''),
      (''rar'', ''application/x-rar-compressed''),
      (''jpg'', ''image/jpeg''),
      (''png'', ''image/png''),
      (''txt'', ''text/plain'')]"

definition detectFileType :: "string \<Rightarrow> string" where
  "detectFileType filename =
     (let ext = (case pop (split (toLowerCase filename) CHR ''.'') of None \<Rightarrow> [] | Some e \<Rightarrow> e)
      in case map_of typeMap ext of
           None \<Rightarrow> ''application/octet-stream''
         | Some t \<Rightarrow> if t \<noteq> [] then t else ''application/octet-stream'')"

definition initial_result :: "UploadedFile \<Rightarrow> file_env \<Rightarrow> FileAnalysisResult" where
  "initial_result f env =
     \<lparr>result_id = new_result_id env,
      res_file = f,
      status = SCANNING,
      overallThreat = CLEAN,
      riskScore = 0,
      scanProgress = 0,
      startTime = clock_start env,
      endTime = None,
      detections = \<lparr>malwareSignatures = [], suspiciousPatterns = [],
                     fileIntegrity = [], behaviorAnalysis = []\<rparr>,
      fileProperties = \<lparr>fileType = (if file_type f \<noteq> [] then file_type f else ''unknown''),
                         actualType = detectFileType (file_name f),
                         prop_size = file_size f,
                         entropy = rnd_entropy env * 8,
                         isEncrypted = False,
                         hasExecutableCode = False,
                         suspiciousNames = []\<rparr>,
      recommendations = [],
      threatIntelligence = \<lparr>knownMalware = False, familyName = None, firstSeen = None,
                             prevalence = COMMON\<rparr>\<rparr>"

definition scan_stage :: "file_env \<Rightarrow> nat \<Rightarrow> FileAnalysisResult \<Rightarrow> FileAnalysisResult" where
  "scan_stage env progress result =
     (if progress = 30 then scanForMalwareSignatures env result
      else if progress = 50 then scanForSuspiciousPatterns result
      else if progress = 70 then analyzeFileIntegrity result
      else if progress = 90 then performBehaviorAnalysis env result
      else result)"

text \<open>
  An analysis run is the pair of the current result and the list of the results published so
  far, each a snapshot of the object at the moment \<^verbatim>\<open>notifyListeners\<close> is called. The
  \<^verbatim>\<open>for\<close> loop of \<^verbatim>\<open>analyzeFile\<close>, from the value of \<^verbatim>\<open>progress\<close> on:
\<close>

function scan_loop ::
  "file_env \<Rightarrow> nat \<Rightarrow> FileAnalysisResult \<times> FileAnalysisResult list \<Rightarrow> FileAnalysisResult \<times> FileAnalysisResult list" where
  "scan_loop env progress run =
     (if progress \<le> 100
      then (let r = scan_stage env progress ((fst run)\<lparr>scanProgress := progress\<rparr>)
            in scan_loop env (progress + 20) (r, snd run @ [r]))
      else run)"
  by pat_completeness auto
termination
  by (relation "measure (\<lambda>(env, progress, run). 101 - progress)") auto

declare scan_loop.simps [simp del]

definition analyzeFile_run :: "UploadedFile \<Rightarrow> file_env \<Rightarrow> FileAnalysisResult \<times> FileAnalysisResult list" where
  "analyzeFile_run f env =
     (let r0 = initial_result f env;
          run = scan_loop env 10 (r0, [r0]);
          r1 = calculateFinalRisk (fst run);
          r2 = r1\<lparr>status := COMPLETED, endTime := Some (clock_end env)\<rparr>
      in (r2, snd run @ [r2]))"

definition analyzeFile :: "UploadedFile \<Rightarrow> file_env \<Rightarrow> FileAnalysisResult" where
  "analyzeFile f env = fst (analyzeFile_run f env)"

definition analyzeFile_published :: "UploadedFile \<Rightarrow> file_env \<Rightarrow> FileAnalysisResult list" where
  "analyzeFile_published f env = snd (analyzeFile_run f env)"

text \<open>
  \<^verbatim>\<open>analyzeFiles\<close>: the session and the list of its published snapshots. The environment
  gives the id and the start time of the session, and for the file at each position the
  environment of its analysis.
\<close>

definition session_step :: "FileAnalysisResult \<Rightarrow> ScanSession \<Rightarrow> ScanSession" where
  "session_step result session =
     (let s1 = session\<lparr>files := files session @ [result]\<rparr>;
          s2 = (if overallThreat result \<noteq> CLEAN
                then s1\<lparr>threatsFound := threatsFound s1 + 1\<rparr>
                else s1\<lparr>cleanFiles := cleanFiles s1 + 1\<rparr>)
      in s2\<lparr>completedFiles := completedFiles s2 + 1\<rparr>)"

fun files_loop ::
  "(nat \<Rightarrow> file_env) \<Rightarrow> nat \<Rightarrow> UploadedFile list \<Rightarrow> ScanSession \<times> ScanSession list \<Rightarrow> ScanSession \<times> ScanSession list" where
  "files_loop envs i [] run = run"
| "files_loop envs i (f # fs) run =
     (let s = session_step (analyzeFile f (envs i)) (fst run)
      in files_loop envs (Suc i) fs (s, snd run @ [s]))"

definition analyzeFiles_run ::
  "string \<Rightarrow> date \<Rightarrow> (nat \<Rightarrow> file_env) \<Rightarrow> UploadedFile list \<Rightarrow> ScanSession \<times> ScanSession list" where
  "analyzeFiles_run sid now envs fs =
     (let session = \<lparr>session_id = sid, files = [], session_startTime = now,
                     totalFiles = length fs, completedFiles = 0, threatsFound = 0, cleanFiles = 0\<rparr>
      in files_loop envs 0 fs (session, [session]))"

definition analyzeFiles_published ::
  "string \<Rightarrow> date \<Rightarrow> (nat \<Rightarrow> file_env) \<Rightarrow> UploadedFile list \<Rightarrow> ScanSession list" where
  "analyzeFiles_published sid now envs fs = snd (analyzeFiles_run sid now envs fs)"

definition analyzeFiles_final ::
  "string \<Rightarrow> date \<Rightarrow> (nat \<Rightarrow> file_env) \<Rightarrow> UploadedFile list \<Rightarrow> ScanSession" where
  "analyzeFiles_final sid now envs fs = fst (analyzeFiles_run sid now envs fs)"

section \<open>Quantities as the specification words them\<close>

text \<open>
  The threat count is the number of outcomes whose classification is not clean, the clean
  count the number of clean ones, the average the arithmetic mean of the risk scores, rounded.
  They are written here as sums over the outcomes, independently of the code.
\<close>

definition spec_threat_count :: "FileAnalysisResult list \<Rightarrow> nat" where
  "spec_threat_count outcomes = (\<Sum>r\<leftarrow>outcomes. if overallThreat r \<noteq> CLEAN then 1 else 0)"

definition spec_clean_count :: "FileAnalysisResult list \<Rightarrow> nat" where
  "spec_clean_count outcomes = (\<Sum>r\<leftarrow>outcomes. if overallThreat r = CLEAN then 1 else 0)"

definition spec_mean_risk :: "FileAnalysisResult list \<Rightarrow> real" where
  "spec_mean_risk outcomes = (\<Sum>r\<leftarrow>outcomes. of_int (riskScore r)) / of_nat (length outcomes)"

text \<open>
  The classification of a risk score by the fixed breakpoints 80, 60 and 30, and the position
  of a classification on the severity scale clean, suspicious, malicious, critical.
\<close>

definition spec_classification :: "int \<Rightarrow> threat" where
  "spec_classification score =
     (if score \<ge> 80 then CRITICAL
      else if score \<ge> 60 then MALICIOUS
      else if score \<ge> 30 then SUSPICIOUS
      else CLEAN)"

fun threat_rank :: "threat \<Rightarrow> nat" where
  "threat_rank CLEAN = 0"
| "threat_rank SUSPICIOUS = 1"
| "threat_rank MALICIOUS = 2"
| "threat_rank CRITICAL = 3"

section \<open>The risk each stage contributes\<close>

text \<open>
  Vocabulary for the lemmas about the engine, derived from the code above: the sum that the
  loop of \<^verbatim>\<open>calculateFinalRisk\<close> forms over a list of detections, the test for an
  executable name made by \<^verbatim>\<open>scanForMalwareSignatures\<close>, and for each of the four stages
  the sum over the detections it pushes, as a function of the file and the environment.
\<close>

definition list_risk :: "DetectionResult list \<Rightarrow> real" where
  "list_risk ds = (\<Sum>d\<leftarrow>ds. severityScore (severity d) * (of_int (confidence d) / 100))"

definition is_executable_name :: "string \<Rightarrow> bool" where
  "is_executable_name n = list_ex (\<lambda>ext. endsWith (toLowerCase n) ext) suspiciousExtensions"

definition signature_risk :: "UploadedFile \<Rightarrow> file_env \<Rightarrow> real" where
  "signature_risk f env =
     (if file_hash f \<in> set maliciousHashes then 784 / 10 else 0) +
     (85 / 2) * of_nat (length (filter (str_includes (toLowerCase (file_name f))) maliciousPatterns)) +
     (if is_executable_name (file_name f) \<and> rnd_signature env > 7 / 10 then 76 else 0)"

definition pattern_risk :: "UploadedFile \<Rightarrow> real" where
  "pattern_risk f =
     (if (''.'' @ (case pop (split (toLowerCase (file_name f)) CHR ''.'') of None \<Rightarrow> ''undefined'' | Some e \<Rightarrow> e))
           \<in> set suspiciousExtensions then 35 / 2 else 0) +
     (if length (split (file_name f) CHR ''.'') > 2 then 40 else 0) +
     (if file_size f < 1024 \<and> endsWith (file_name f) ''.exe'' then 65 / 4 else 0) +
     (if file_size f > 100 * 1024 * 1024 then 5 else 0)"

definition integrity_risk :: "UploadedFile \<Rightarrow> file_env \<Rightarrow> real" where
  "integrity_risk f env =
     (if rnd_entropy env * 8 > 75 / 10 then 75 / 4 else 0) +
     (if file_type f \<noteq> [] \<and> detectFileType (file_name f) \<noteq> [] \<and> file_type f \<noteq> detectFileType (file_name f)
      then 45 else 0)"

definition behavior_risk :: "UploadedFile \<Rightarrow> file_env \<Rightarrow> real" where
  "behavior_risk f env =
     (if is_executable_name (file_name f) \<and> rnd_behavior env > 6 / 10 then 41 else 0) +
     (if rnd_strings env > 8 / 10 then 35 / 2 else 0)"

section \<open>Sample inputs\<close>

text \<open>
  The session and the two results that the "Add Test Data" button of
  \<^verbatim>\<open>pages/LiveFileAnalysis.tsx\<close> records, for a clock that reads \<open>now\<close>.
\<close>

definition testSession :: "date \<Rightarrow> ScanSession" where
  "testSession now =
     \<lparr>session_id = ''test_session'', files = [], session_startTime = now,
      totalFiles = 3, completedFiles = 3, threatsFound = 1, cleanFiles = 2\<rparr>"

definition testResults :: "date \<Rightarrow> FileAnalysisResult list" where
  "testResults now =
     [\<lparr>result_id = ''test1'',
       res_file = \<lparr>file_id = ''1'', file_name = ''document.pdf'', file_size = 1024,
                    file_type = ''pdf'', uploadedAt = now, content = None, file_hash = ''abc123''\<rparr>,
       status = COMPLETED, overallThreat = CLEAN, riskScore = 15, scanProgress = 100,
       startTime = now, endTime = Some now,
       detections = \<lparr>malwareSignatures = [], suspiciousPatterns = [],
                      fileIntegrity = [], behaviorAnalysis = []\<rparr>,
       fileProperties = \<lparr>fileType = ''pdf'', actualType = ''pdf'', prop_size = 1024,
                          entropy = 32 / 10, isEncrypted = False, hasExecutableCode = False,
                          suspiciousNames = []\<rparr>,
       recommendations = [''File appears clean''],
       threatIntelligence = \<lparr>knownMalware = False, familyName = None, firstSeen = None,
                              prevalence = COMMON\<rparr>\<rparr>,
      \<lparr>result_id = ''test2'',
       res_file = \<lparr>file_id = ''2'', file_name = ''suspicious.exe'', file_size = 2048,
                    file_type = ''exe'', uploadedAt = now, content = None, file_hash = ''def456''\<rparr>,
       status = COMPLETED, overallThreat = MALICIOUS, riskScore = 85, scanProgress = 100,
       startTime = now, endTime = Some now,
       detections = \<lparr>malwareSignatures = [], suspiciousPatterns = [],
                      fileIntegrity = [], behaviorAnalysis = []\<rparr>,
       fileProperties = \<lparr>fileType = ''exe'', actualType = ''exe'', prop_size = 2048,
                          entropy = 78 / 10, isEncrypted = False, hasExecutableCode = True,
                          suspiciousNames = []\<rparr>,
       recommendations = [''Do not execute''],
       threatIntelligence = \<lparr>knownMalware = True, familyName = None, firstSeen = None,
                              prevalence = RARE\<rparr>\<rparr>]"

definition test_entry :: "string \<Rightarrow> HistoricalScan" where
  "test_entry new_id = historicalScan new_id (testSession 0) (testResults 0)"

text \<open>
  A stored history that holds as many entries as the store retains. The entries are told
  apart by their timestamps and stand newest first: the last one, with timestamp 0, is the
  oldest.
\<close>

definition numbered_entry :: "nat \<Rightarrow> HistoricalScan" where
  "numbered_entry n = (test_entry ''hist_0'')\<lparr>timestamp := int n\<rparr>"

definition full_history :: "HistoricalScan list" where
  "full_history = map numbered_entry (rev [0..<MAX_HISTORY_ITEMS])"

text \<open>
  Storage media: one that accepts every write, one without any quota left, where every
  \<^verbatim>\<open>setItem\<close> throws \<^verbatim>\<open>QuotaExceededError\<close>, and one whose quota is exceeded by
  every document of \<open>n\<close> entries or more.
\<close>

definition unlimited :: medium where
  "unlimited h = None"

definition no_quota :: medium where
  "no_quota h = Some QuotaExceededError"

definition quota_below :: "nat \<Rightarrow> medium" where
  "quota_below n h = (if length h \<ge> n then Some QuotaExceededError else None)"

text \<open>
  The three files of the scenario "doc.pdf (50 KB), note.txt (10 KB), backdoor.exe (2 KB)",
  with the declared type a browser reports and the hash \<^verbatim>\<open>generateFileHash\<close> forms from
  the first bytes; random draws that trigger no random detection, and draws that trigger both
  the entropy and the suspicious-strings detection.
\<close>

definition scenario_doc :: UploadedFile where
  "scenario_doc =
     \<lparr>file_id = ''file_1'', file_name = ''doc.pdf'', file_size = 51200,
      file_type = ''application/pdf'', uploadedAt = 0, content = None,
      file_hash = ''255044462d312e37''\<rparr>"

definition scenario_note :: UploadedFile where
  "scenario_note =
     \<lparr>file_id = ''file_2'', file_name = ''note.txt'', file_size = 10240,
      file_type = ''text/plain'', uploadedAt = 0, content = None,
      file_hash = ''6d656574696e6720''\<rparr>"

definition scenario_backdoor :: UploadedFile where
  "scenario_backdoor =
     \<lparr>file_id = ''file_3'', file_name = ''backdoor.exe'', file_size = 2048,
      file_type = ''application/x-msdownload'', uploadedAt = 0, content = None,
      file_hash = ''4d5a900003000000''\<rparr>"

definition calm_draws :: file_env where
  "calm_draws =
     \<lparr>new_result_id = ''analysis_1'', clock_start = 0, clock_end = 1500,
      rnd_entropy = 1 / 2, rnd_signature = 1 / 2, rnd_behavior = 1 / 2,
      rnd_behavior_pick = 1 / 2, rnd_strings = 1 / 2\<rparr>"

definition high_draws :: file_env where
  "high_draws =
     \<lparr>new_result_id = ''analysis_1'', clock_start = 0, clock_end = 1500,
      rnd_entropy = 19 / 20, rnd_signature = 1 / 2, rnd_behavior = 1 / 2,
      rnd_behavior_pick = 1 / 2, rnd_strings = 9 / 10\<rparr>"

definition calm_envs :: "nat \<Rightarrow> file_env" where
  "calm_envs i = calm_draws"

definition unlucky_envs :: "nat \<Rightarrow> file_env" where
  "unlucky_envs i = (if i = 0 then high_draws else calm_draws)"

section \<open>Auxiliary facts\<close>

lemma length_filter_indicator:
  "length (filter P xs) = (\<Sum>x\<leftarrow>xs. if P x then 1 else 0)"
  by (induction xs) simp_all

lemma foldl_riskScore: "foldl (\<lambda>sum r. sum + riskScore r) a rs = a + (\<Sum>r\<leftarrow>rs. riskScore r)"
  by (induction rs arbitrary: a) simp_all

lemma of_int_sum_list_map: "(of_int (\<Sum>r\<leftarrow>rs. f r) :: real) = (\<Sum>r\<leftarrow>rs. of_int (f r))"
  by (induction rs) simp_all

lemma setItem_accept: "m h = None \<Longrightarrow> setItem m st h = Inr (Stored h)"
  by (simp add: setItem_def)

lemma saveHistory_accept: "m h = None \<Longrightarrow> saveHistory m st h = Inr (Stored h)"
  by (simp add: saveHistory_def setItem_accept)

lemma saveHistoricalScan_accept:
  assumes "m (take MAX_HISTORY_ITEMS (historicalScan i s rs # getHistory st)) = None"
  shows "saveHistoricalScan m st i s rs =
           Inr (Stored (historicalScan i s rs # take (MAX_HISTORY_ITEMS - 1) (getHistory st)))"
proof -
  let ?h = "historicalScan i s rs # getHistory st"
  have cap: "(if length ?h > MAX_HISTORY_ITEMS then take MAX_HISTORY_ITEMS ?h else ?h) = take MAX_HISTORY_ITEMS ?h"
    by simp
  have "saveHistoricalScan m st i s rs = saveHistory m st (take MAX_HISTORY_ITEMS ?h)"
    unfolding saveHistoricalScan_def Let_def cap ..
  also have "\<dots> = Inr (Stored (take MAX_HISTORY_ITEMS ?h))"
    using assms by (rule saveHistory_accept)
  also have "take MAX_HISTORY_ITEMS ?h = historicalScan i s rs # take (MAX_HISTORY_ITEMS - 1) (getHistory st)"
    by (simp add: MAX_HISTORY_ITEMS_def take_Cons')
  finally show ?thesis .
qed

lemma length_clean_partition:
  "length (filter (\<lambda>r. overallThreat r \<noteq> CLEAN) rs) + length (filter (\<lambda>r. overallThreat r = CLEAN) rs)
     = length rs"
  by (induction rs) simp_all















lemma saveHistory_quota:
  "m h = Some QuotaExceededError \<Longrightarrow> saveHistory m st h = setItem m st (take (length h div 2) h)"
  by (simp add: saveHistory_def setItem_def)

lemma saveHistory_other:
  "m h = Some SecurityError \<Longrightarrow> saveHistory m st h = Inr st"
  by (simp add: saveHistory_def setItem_def)


lemma numbered_history:
  assumes "0 < n"
  shows "length (map f (rev [0..<n])) = n"
    and "last (map f (rev [0..<n])) = f 0"
    and "butlast (map f (rev [0..<n])) = map f (rev [Suc 0..<n])"
proof -
  show "length (map f (rev [0..<n])) = n"
    by simp
  have "rev [0..<n] \<noteq> []"
    using assms by simp
  then have "last (map f (rev [0..<n])) = f (last (rev [0..<n]))"
    by (rule last_map)
  also have "last (rev [0..<n]) = hd [0..<n]"
    by (rule last_rev)
  also have "hd [0..<n] = 0"
    using assms by (rule hd_upt)
  finally show "last (map f (rev [0..<n])) = f 0" .
  have "butlast (map f (rev [0..<n])) = map f (butlast (rev [0..<n]))"
    by (rule map_butlast [symmetric])
  then show "butlast (map f (rev [0..<n])) = map f (rev [Suc 0..<n])"
    by simp
qed

lemma MAX_HISTORY_ITEMS_pos: "0 < MAX_HISTORY_ITEMS"
  by (simp add: MAX_HISTORY_ITEMS_def)

lemma full_history_shape:
  "length full_history = MAX_HISTORY_ITEMS"
  "last full_history = numbered_entry 0"
  "butlast full_history = map numbered_entry (rev [Suc 0..<MAX_HISTORY_ITEMS])"
  unfolding full_history_def by (rule numbered_history [OF MAX_HISTORY_ITEMS_pos])+

subsection \<open>The analysis engine\<close>

lemma list_risk_simps [simp]:
  "list_risk [] = 0"
  "list_risk (xs @ ys) = list_risk xs + list_risk ys"
  "list_risk (detection c s d n # ds) = severityScore s * (of_int n / 100) + list_risk ds"
  by (simp_all add: list_risk_def detection_def)

lemma risk_fold: "fst (foldl risk_step acc ds) = fst acc + list_risk ds"
  by (induction ds arbitrary: acc) (simp_all add: list_risk_def risk_step_def Let_def)

lemma pattern_step_fields:
  "res_file (pattern_step n r p) = res_file r"
  "fileProperties (pattern_step n r p) = fileProperties r"
  "threatIntelligence (pattern_step n r p) = threatIntelligence r"
  "scanProgress (pattern_step n r p) = scanProgress r"
  "riskScore (pattern_step n r p) = riskScore r"
  "overallThreat (pattern_step n r p) = overallThreat r"
  "status (pattern_step n r p) = status r"
  "suspiciousPatterns (detections (pattern_step n r p)) = suspiciousPatterns (detections r)"
  "fileIntegrity (detections (pattern_step n r p)) = fileIntegrity (detections r)"
  "behaviorAnalysis (detections (pattern_step n r p)) = behaviorAnalysis (detections r)"
  "list_risk (malwareSignatures (detections (pattern_step n r p))) =
     list_risk (malwareSignatures (detections r)) + (if str_includes n p then 85 / 2 else 0)"
  by (simp_all add: pattern_step_def push_malwareSignatures_def)

lemma pattern_fold_fields:
  "res_file (foldl (pattern_step n) r ps) = res_file r"
  "fileProperties (foldl (pattern_step n) r ps) = fileProperties r"
  "threatIntelligence (foldl (pattern_step n) r ps) = threatIntelligence r"
  "scanProgress (foldl (pattern_step n) r ps) = scanProgress r"
  "riskScore (foldl (pattern_step n) r ps) = riskScore r"
  "overallThreat (foldl (pattern_step n) r ps) = overallThreat r"
  "status (foldl (pattern_step n) r ps) = status r"
  "suspiciousPatterns (detections (foldl (pattern_step n) r ps)) = suspiciousPatterns (detections r)"
  "fileIntegrity (detections (foldl (pattern_step n) r ps)) = fileIntegrity (detections r)"
  "behaviorAnalysis (detections (foldl (pattern_step n) r ps)) = behaviorAnalysis (detections r)"
  by (induction ps arbitrary: r) (simp_all add: pattern_step_fields)

lemma pattern_fold_risk:
  "list_risk (malwareSignatures (detections (foldl (pattern_step n) r ps))) =
     list_risk (malwareSignatures (detections r)) + (85 / 2) * of_nat (length (filter (str_includes n) ps))"
  by (induction ps arbitrary: r) (simp_all add: pattern_step_fields algebra_simps)

lemma malware_stage_fields:
  "res_file (scanForMalwareSignatures env r) = res_file r"
  "scanProgress (scanForMalwareSignatures env r) = scanProgress r"
  "riskScore (scanForMalwareSignatures env r) = riskScore r"
  "overallThreat (scanForMalwareSignatures env r) = overallThreat r"
  "status (scanForMalwareSignatures env r) = status r"
  "suspiciousPatterns (detections (scanForMalwareSignatures env r)) = suspiciousPatterns (detections r)"
  "fileIntegrity (detections (scanForMalwareSignatures env r)) = fileIntegrity (detections r)"
  "behaviorAnalysis (detections (scanForMalwareSignatures env r)) = behaviorAnalysis (detections r)"
  "entropy (fileProperties (scanForMalwareSignatures env r)) = entropy (fileProperties r)"
  "actualType (fileProperties (scanForMalwareSignatures env r)) = actualType (fileProperties r)"
  "hasExecutableCode (fileProperties (scanForMalwareSignatures env r)) =
     (hasExecutableCode (fileProperties r) \<or> is_executable_name (file_name (res_file r)))"
  by (simp_all add: scanForMalwareSignatures_def Let_def pattern_fold_fields
      push_malwareSignatures_def is_executable_name_def)

lemma malware_stage_risk:
  "list_risk (malwareSignatures (detections (scanForMalwareSignatures env r))) =
     list_risk (malwareSignatures (detections r)) + signature_risk (res_file r) env"
  by (simp add: scanForMalwareSignatures_def Let_def pattern_fold_fields pattern_fold_risk
      push_malwareSignatures_def is_executable_name_def signature_risk_def)

lemma pattern_stage_fields:
  "res_file (scanForSuspiciousPatterns r) = res_file r"
  "scanProgress (scanForSuspiciousPatterns r) = scanProgress r"
  "riskScore (scanForSuspiciousPatterns r) = riskScore r"
  "overallThreat (scanForSuspiciousPatterns r) = overallThreat r"
  "status (scanForSuspiciousPatterns r) = status r"
  "fileProperties (scanForSuspiciousPatterns r) = fileProperties r"
  "malwareSignatures (detections (scanForSuspiciousPatterns r)) = malwareSignatures (detections r)"
  "fileIntegrity (detections (scanForSuspiciousPatterns r)) = fileIntegrity (detections r)"
  "behaviorAnalysis (detections (scanForSuspiciousPatterns r)) = behaviorAnalysis (detections r)"
  by (simp_all add: scanForSuspiciousPatterns_def Let_def push_suspiciousPatterns_def)

lemma pattern_stage_risk:
  "list_risk (suspiciousPatterns (detections (scanForSuspiciousPatterns r))) =
     list_risk (suspiciousPatterns (detections r)) + pattern_risk (res_file r)"
  by (simp add: scanForSuspiciousPatterns_def Let_def push_suspiciousPatterns_def pattern_risk_def)

lemma integrity_stage_fields:
  "res_file (analyzeFileIntegrity r) = res_file r"
  "scanProgress (analyzeFileIntegrity r) = scanProgress r"
  "riskScore (analyzeFileIntegrity r) = riskScore r"
  "overallThreat (analyzeFileIntegrity r) = overallThreat r"
  "status (analyzeFileIntegrity r) = status r"
  "hasExecutableCode (fileProperties (analyzeFileIntegrity r)) = hasExecutableCode (fileProperties r)"
  "malwareSignatures (detections (analyzeFileIntegrity r)) = malwareSignatures (detections r)"
  "suspiciousPatterns (detections (analyzeFileIntegrity r)) = suspiciousPatterns (detections r)"
  "behaviorAnalysis (detections (analyzeFileIntegrity r)) = behaviorAnalysis (detections r)"
  by (simp_all add: analyzeFileIntegrity_def Let_def push_fileIntegrity_def)

lemma integrity_stage_risk:
  "list_risk (fileIntegrity (detections (analyzeFileIntegrity r))) =
     list_risk (fileIntegrity (detections r)) +
     ((if entropy (fileProperties r) > 75 / 10 then 75 / 4 else 0) +
      (if file_type (res_file r) \<noteq> [] \<and> actualType (fileProperties r) \<noteq> [] \<and>
          file_type (res_file r) \<noteq> actualType (fileProperties r) then 45 else 0))"
  by (simp add: analyzeFileIntegrity_def Let_def push_fileIntegrity_def)

lemma behavior_stage_fields:
  "res_file (performBehaviorAnalysis env r) = res_file r"
  "scanProgress (performBehaviorAnalysis env r) = scanProgress r"
  "riskScore (performBehaviorAnalysis env r) = riskScore r"
  "overallThreat (performBehaviorAnalysis env r) = overallThreat r"
  "status (performBehaviorAnalysis env r) = status r"
  "malwareSignatures (detections (performBehaviorAnalysis env r)) = malwareSignatures (detections r)"
  "suspiciousPatterns (detections (performBehaviorAnalysis env r)) = suspiciousPatterns (detections r)"
  "fileIntegrity (detections (performBehaviorAnalysis env r)) = fileIntegrity (detections r)"
  by (simp_all add: performBehaviorAnalysis_def Let_def push_behaviorAnalysis_def)

lemma behavior_stage_risk:
  "list_risk (behaviorAnalysis (detections (performBehaviorAnalysis env r))) =
     list_risk (behaviorAnalysis (detections r)) +
     ((if hasExecutableCode (fileProperties r) \<and> rnd_behavior env > 6 / 10 then 41 else 0) +
      (if rnd_strings env > 8 / 10 then 35 / 2 else 0))"
  by (simp add: performBehaviorAnalysis_def Let_def push_behaviorAnalysis_def)

lemma scan_loop_unroll:
  "scan_loop env 10 (r, pub) =
     (let r10 = r\<lparr>scanProgress := 10\<rparr>;
          r30 = scanForMalwareSignatures env (r10\<lparr>scanProgress := 30\<rparr>);
          r50 = scanForSuspiciousPatterns (r30\<lparr>scanProgress := 50\<rparr>);
          r70 = analyzeFileIntegrity (r50\<lparr>scanProgress := 70\<rparr>);
          r90 = performBehaviorAnalysis env (r70\<lparr>scanProgress := 90\<rparr>)
      in (r90, pub @ [r10, r30, r50, r70, r90]))"
  by (simp add: scan_loop.simps scan_stage_def Let_def)

lemmas stage_fields = malware_stage_fields pattern_stage_fields integrity_stage_fields behavior_stage_fields

lemmas stage_risks = malware_stage_risk pattern_stage_risk integrity_stage_risk behavior_stage_risk

lemma scan_loop_progress:
  "map scanProgress (snd (scan_loop env 10 (initial_result f env, [initial_result f env]))) =
     [0, 10, 30, 50, 70, 90]"
  "scanProgress (fst (scan_loop env 10 (initial_result f env, [initial_result f env]))) = 90"
  by (simp_all add: scan_loop_unroll Let_def stage_fields initial_result_def)

lemma scan_loop_unscored:
  "map riskScore (snd (scan_loop env 10 (initial_result f env, [initial_result f env]))) =
     [0, 0, 0, 0, 0, 0]"
  "map overallThreat (snd (scan_loop env 10 (initial_result f env, [initial_result f env]))) =
     [CLEAN, CLEAN, CLEAN, CLEAN, CLEAN, CLEAN]"
  "map status (snd (scan_loop env 10 (initial_result f env, [initial_result f env]))) =
     [SCANNING, SCANNING, SCANNING, SCANNING, SCANNING, SCANNING]"
  by (simp_all add: scan_loop_unroll Let_def stage_fields initial_result_def)

lemma scan_loop_risk:
  "list_risk (allDetections (fst (scan_loop env 10 (initial_result f env, pub)))) =
     signature_risk f env + pattern_risk f + integrity_risk f env + behavior_risk f env"
  by (simp add: scan_loop_unroll Let_def allDetections_def stage_fields stage_risks
      initial_result_def integrity_risk_def behavior_risk_def)

lemma generateRecommendations_fields:
  "riskScore (generateRecommendations r) = riskScore r"
  "overallThreat (generateRecommendations r) = overallThreat r"
  "scanProgress (generateRecommendations r) = scanProgress r"
  by (simp_all add: generateRecommendations_def)

lemma calculateFinalRisk_riskScore:
  "riskScore (calculateFinalRisk r) = min (Math_round (list_risk (allDetections r))) 100"
  by (simp add: calculateFinalRisk_def Let_def generateRecommendations_fields risk_fold)

lemma calculateFinalRisk_overallThreat:
  "overallThreat (calculateFinalRisk r) =
     (if riskScore (calculateFinalRisk r) \<ge> 80 then CRITICAL
      else if riskScore (calculateFinalRisk r) \<ge> 60 then MALICIOUS
      else if riskScore (calculateFinalRisk r) \<ge> 30 then SUSPICIOUS
      else CLEAN)"
  by (simp add: calculateFinalRisk_def Let_def generateRecommendations_fields)

lemma calculateFinalRisk_scanProgress:
  "scanProgress (calculateFinalRisk r) = scanProgress r"
  by (simp add: calculateFinalRisk_def Let_def generateRecommendations_fields)

lemma analyzeFile_riskScore:
  "riskScore (analyzeFile f env) =
     min (Math_round (signature_risk f env + pattern_risk f + integrity_risk f env + behavior_risk f env)) 100"
  by (simp add: analyzeFile_def analyzeFile_run_def Let_def calculateFinalRisk_riskScore scan_loop_risk)

lemma analyzeFile_overallThreat:
  "overallThreat (analyzeFile f env) =
     (if riskScore (analyzeFile f env) \<ge> 80 then CRITICAL
      else if riskScore (analyzeFile f env) \<ge> 60 then MALICIOUS
      else if riskScore (analyzeFile f env) \<ge> 30 then SUSPICIOUS
      else CLEAN)"
  using calculateFinalRisk_overallThreat [of "fst (scan_loop env 10 (initial_result f env, [initial_result f env]))"]
  by (simp add: analyzeFile_def analyzeFile_run_def Let_def)

lemma stage_risk_nonneg:
  "0 \<le> signature_risk f env" "0 \<le> pattern_risk f" "0 \<le> integrity_risk f env" "0 \<le> behavior_risk f env"
  by (simp_all add: signature_risk_def pattern_risk_def integrity_risk_def behavior_risk_def)

lemma published_progress:
  "map scanProgress (analyzeFile_published f env) = [0, 10, 30, 50, 70, 90, 90]"
  by (simp add: analyzeFile_published_def analyzeFile_run_def Let_def scan_loop_progress
      calculateFinalRisk_scanProgress)

lemma spec_classification_mono:
  "a \<le> b \<Longrightarrow> threat_rank (spec_classification a) \<le> threat_rank (spec_classification b)"
  by (simp add: spec_classification_def)

lemma Math_round_nonneg: "0 \<le> x \<Longrightarrow> 0 \<le> Math_round x"
  by (simp add: Math_round_def)

lemma Math_round_mono: "x \<le> y \<Longrightarrow> Math_round x \<le> Math_round y"
  by (simp add: Math_round_def floor_mono)

lemma analyzeFile_riskScore_range:
  "0 \<le> riskScore (analyzeFile f env)" "riskScore (analyzeFile f env) \<le> 100"
proof -
  have "0 \<le> signature_risk f env + pattern_risk f + integrity_risk f env + behavior_risk f env"
    using stage_risk_nonneg(1) [of f env] stage_risk_nonneg(2) [of f]
      stage_risk_nonneg(3) [of f env] stage_risk_nonneg(4) [of f env] by linarith
  then show "0 \<le> riskScore (analyzeFile f env)"
    by (simp add: analyzeFile_riskScore Math_round_nonneg)
  show "riskScore (analyzeFile f env) \<le> 100"
    by (simp add: analyzeFile_riskScore)
qed

lemma session_step_fields:
  "totalFiles (session_step r s) = totalFiles s"
  "completedFiles (session_step r s) = completedFiles s + 1"
  "threatsFound (session_step r s) + cleanFiles (session_step r s) = threatsFound s + cleanFiles s + 1"
  "threatsFound (session_step r s) = threatsFound s + (if overallThreat r \<noteq> CLEAN then 1 else 0)"
  "cleanFiles (session_step r s) = cleanFiles s + (if overallThreat r \<noteq> CLEAN then 0 else 1)"
  "files (session_step r s) = files s @ [r]"
  by (simp_all add: session_step_def Let_def)

lemma files_loop_final:
  assumes "threatsFound s + cleanFiles s = completedFiles s"
    and "completedFiles s + length fs = totalFiles s"
  shows "threatsFound (fst (files_loop envs i fs (s, pub))) + cleanFiles (fst (files_loop envs i fs (s, pub)))
           = completedFiles (fst (files_loop envs i fs (s, pub))) \<and>
         completedFiles (fst (files_loop envs i fs (s, pub))) = totalFiles s \<and>
         totalFiles (fst (files_loop envs i fs (s, pub))) = totalFiles s"
  using assms
proof (induction fs arbitrary: s pub i)
  case Nil
  then show ?case by simp
next
  case (Cons f fs)
  let ?s = "session_step (analyzeFile f (envs i)) s"
  have "threatsFound ?s + cleanFiles ?s = completedFiles ?s"
    using Cons.prems by (simp add: session_step_fields)
  moreover have "completedFiles ?s + length fs = totalFiles ?s"
    using Cons.prems by (simp add: session_step_fields)
  ultimately show ?case
    using Cons.IH [of ?s "Suc i" "pub @ [?s]"] by (simp add: Let_def session_step_fields)
qed

lemma files_loop_published:
  assumes "threatsFound s + cleanFiles s = completedFiles s"
    and "completedFiles s + length fs = totalFiles s"
    and "\<forall>x \<in> set pub. threatsFound x + cleanFiles x = completedFiles x \<and> completedFiles x \<le> totalFiles x"
  shows "\<forall>x \<in> set (snd (files_loop envs i fs (s, pub))).
           threatsFound x + cleanFiles x = completedFiles x \<and> completedFiles x \<le> totalFiles x"
  using assms
proof (induction fs arbitrary: s pub i)
  case Nil
  then show ?case by simp
next
  case (Cons f fs)
  let ?s = "session_step (analyzeFile f (envs i)) s"
  have 1: "threatsFound ?s + cleanFiles ?s = completedFiles ?s"
    using Cons.prems(1) by (simp add: session_step_fields)
  have 2: "completedFiles ?s + length fs = totalFiles ?s"
    using Cons.prems(2) by (simp add: session_step_fields)
  have 3: "\<forall>x \<in> set (pub @ [?s]). threatsFound x + cleanFiles x = completedFiles x \<and> completedFiles x \<le> totalFiles x"
    using Cons.prems(3) 1 2 by auto
  show ?case
    using Cons.IH [OF 1 2 3, of "Suc i"] by (simp add: Let_def)
qed

lemma files_loop_last:
  "pub \<noteq> [] \<Longrightarrow> last pub = s \<Longrightarrow>
     last (snd (files_loop envs i fs (s, pub))) = fst (files_loop envs i fs (s, pub)) \<and>
     length (snd (files_loop envs i fs (s, pub))) = length pub + length fs"
  by (induction fs arbitrary: s pub i) (simp_all add: Let_def)

lemma lower_names:
  "toLowerCase ''doc.pdf'' = ''doc.pdf''"
  "toLowerCase ''note.txt'' = ''note.txt''"
  "toLowerCase ''backdoor.exe'' = ''backdoor.exe''"
  by (simp_all add: toLowerCase_def lower_char_def)

lemma name_matches:
  "filter (str_includes ''doc.pdf'') maliciousPatterns = []"
  "filter (str_includes ''note.txt'') maliciousPatterns = []"
  "filter (str_includes ''backdoor.exe'') maliciousPatterns = [''backdoor'']"
  by (simp_all add: maliciousPatterns_def)

lemma name_executable:
  "is_executable_name ''doc.pdf'' = False"
  "is_executable_name ''note.txt'' = False"
  "is_executable_name ''backdoor.exe'' = True"
  by (simp_all add: is_executable_name_def lower_names suspiciousExtensions_def endsWith_def)

lemma name_split:
  "split ''doc.pdf'' CHR ''.'' = [''doc'', ''pdf'']"
  "split ''note.txt'' CHR ''.'' = [''note'', ''txt'']"
  "split ''backdoor.exe'' CHR ''.'' = [''backdoor'', ''exe'']"
  by simp_all

lemma name_type:
  "detectFileType ''doc.pdf'' = ''application/pdf''"
  "detectFileType ''note.txt'' = ''text/plain''"
  "detectFileType ''backdoor.exe'' = ''application/x-executable''"
  by (simp_all add: detectFileType_def lower_names name_split pop_def typeMap_def)

lemma doc_pdf_risk:
  assumes "file_name f = ''doc.pdf''" "file_size f = 51200" "file_type f = ''application/pdf''"
    and "file_hash f \<notin> set maliciousHashes"
  shows "signature_risk f env = 0" "pattern_risk f = 0"
    "integrity_risk f env = (if rnd_entropy env * 8 > 75 / 10 then 75 / 4 else 0)"
    "behavior_risk f env = (if rnd_strings env > 8 / 10 then 35 / 2 else 0)"
  using assms
  by (simp_all add: signature_risk_def pattern_risk_def integrity_risk_def behavior_risk_def
      lower_names name_matches name_executable name_split name_type pop_def suspiciousExtensions_def
      endsWith_def)

lemma note_txt_risk:
  assumes "file_name f = ''note.txt''" "file_size f = 10240" "file_type f = ''text/plain''"
    and "file_hash f \<notin> set maliciousHashes"
  shows "signature_risk f env = 0" "pattern_risk f = 0"
    "integrity_risk f env = (if rnd_entropy env * 8 > 75 / 10 then 75 / 4 else 0)"
    "behavior_risk f env = (if rnd_strings env > 8 / 10 then 35 / 2 else 0)"
  using assms
  by (simp_all add: signature_risk_def pattern_risk_def integrity_risk_def behavior_risk_def
      lower_names name_matches name_executable name_split name_type pop_def suspiciousExtensions_def
      endsWith_def)

lemma backdoor_exe_risk:
  assumes "file_name f = ''backdoor.exe''"
  shows "85 / 2 \<le> signature_risk f env" "35 / 2 \<le> pattern_risk f"
  using assms
  by (simp_all add: signature_risk_def pattern_risk_def
      lower_names name_matches name_executable name_split pop_def suspiciousExtensions_def)

lemma plain_file_threat:
  assumes "signature_risk f env = 0" "pattern_risk f = 0"
    "integrity_risk f env = (if rnd_entropy env * 8 > 75 / 10 then 75 / 4 else 0)"
    "behavior_risk f env = (if rnd_strings env > 8 / 10 then 35 / 2 else 0)"
  shows "riskScore (analyzeFile f env) =
           (if rnd_entropy env * 8 > 75 / 10
            then (if rnd_strings env > 8 / 10 then 36 else 19)
            else (if rnd_strings env > 8 / 10 then 18 else 0))"
  unfolding analyzeFile_riskScore assms Math_round_def by simp

lemma backdoor_exe_score:
  assumes "file_name f = ''backdoor.exe''"
  shows "60 \<le> riskScore (analyzeFile f env)"
proof -
  have "60 \<le> signature_risk f env + pattern_risk f + integrity_risk f env + behavior_risk f env"
    using backdoor_exe_risk(1) [OF assms, of env] backdoor_exe_risk(2) [OF assms] stage_risk_nonneg(3) [of f env]
      stage_risk_nonneg(4) [of f env] by linarith
  then have "Math_round 60 \<le> Math_round (signature_risk f env + pattern_risk f + integrity_risk f env + behavior_risk f env)"
    by (rule Math_round_mono)
  moreover have "Math_round 60 = 60"
    by (simp add: Math_round_def)
  ultimately show ?thesis
    by (simp add: analyzeFile_riskScore)
qed

lemma analyzeFiles_final_three:
  "analyzeFiles_final sid now envs [f1, f2, f3] =
     session_step (analyzeFile f3 (envs 2))
       (session_step (analyzeFile f2 (envs 1))
          (session_step (analyzeFile f1 (envs 0))
             \<lparr>session_id = sid, files = [], session_startTime = now,
              totalFiles = 3, completedFiles = 0, threatsFound = 0, cleanFiles = 0\<rparr>))"
  by (simp add: analyzeFiles_final_def analyzeFiles_run_def Let_def numeral_2_eq_2 numeral_3_eq_3)

lemma three_files_counters:
  assumes "overallThreat (analyzeFile f1 (envs 0)) = t1"
    and "overallThreat (analyzeFile f2 (envs 1)) = t2"
    and "overallThreat (analyzeFile f3 (envs 2)) = t3"
  shows "map overallThreat (files (analyzeFiles_final sid now envs [f1, f2, f3])) = [t1, t2, t3]"
    and "threatsFound (analyzeFiles_final sid now envs [f1, f2, f3]) =
           (if t1 \<noteq> CLEAN then 1 else 0) + (if t2 \<noteq> CLEAN then 1 else 0) + (if t3 \<noteq> CLEAN then 1 else 0)"
    and "cleanFiles (analyzeFiles_final sid now envs [f1, f2, f3]) =
           (if t1 \<noteq> CLEAN then 0 else 1) + (if t2 \<noteq> CLEAN then 0 else 1) + (if t3 \<noteq> CLEAN then 0 else 1)"
    and "completedFiles (analyzeFiles_final sid now envs [f1, f2, f3]) = 3"
  using assms unfolding analyzeFiles_final_three by (simp_all add: session_step_fields)

lemma plain_file_clean:
  assumes "signature_risk f env = 0" "pattern_risk f = 0"
    "integrity_risk f env = (if rnd_entropy env * 8 > 75 / 10 then 75 / 4 else 0)"
    "behavior_risk f env = (if rnd_strings env > 8 / 10 then 35 / 2 else 0)"
    and "rnd_entropy env * 8 \<le> 75 / 10 \<or> rnd_strings env \<le> 8 / 10"
  shows "overallThreat (analyzeFile f env) = CLEAN"
proof -
  have "riskScore (analyzeFile f env) < 30"
    using assms(5) unfolding plain_file_threat [OF assms(1-4)] by auto
  then show ?thesis
    by (simp add: analyzeFile_overallThreat)
qed

lemma backdoor_exe_threat:
  assumes "file_name f = ''backdoor.exe''"
  shows "overallThreat (analyzeFile f env) \<in> {MALICIOUS, CRITICAL}"
  using backdoor_exe_score [OF assms, of env] by (simp add: analyzeFile_overallThreat)

lemma scenario_hashes:
  "file_hash scenario_doc \<notin> set maliciousHashes"
  "file_hash scenario_note \<notin> set maliciousHashes"
  "file_hash scenario_backdoor \<notin> set maliciousHashes"
  by (simp_all add: scenario_doc_def scenario_note_def scenario_backdoor_def maliciousHashes_def)

lemma scenario_backdoor_calm: "riskScore (analyzeFile scenario_backdoor calm_draws) = 100"
proof -
  have n: "file_name scenario_backdoor = ''backdoor.exe''"
    by (simp add: scenario_backdoor_def)
  have 1: "signature_risk scenario_backdoor calm_draws = 85 / 2"
    using scenario_hashes(3) unfolding signature_risk_def n lower_names name_matches name_executable
    by (simp add: calm_draws_def)
  have 2: "pattern_risk scenario_backdoor = 35 / 2"
    unfolding pattern_risk_def n lower_names name_split
    by (simp add: pop_def suspiciousExtensions_def scenario_backdoor_def endsWith_def)
  have 3: "integrity_risk scenario_backdoor calm_draws = 45"
    unfolding integrity_risk_def n name_type
    by (simp add: calm_draws_def scenario_backdoor_def)
  have 4: "behavior_risk scenario_backdoor calm_draws = 0"
    unfolding behavior_risk_def n name_executable
    by (simp add: calm_draws_def)
  show ?thesis
    unfolding analyzeFile_riskScore 1 2 3 4 by (simp add: Math_round_def)
qed

lemma scenario_doc_scores:
  "riskScore (analyzeFile scenario_doc calm_draws) = 0"
  "riskScore (analyzeFile scenario_doc high_draws) = 36"
proof -
  have d: "file_name scenario_doc = ''doc.pdf''" "file_size scenario_doc = 51200"
    "file_type scenario_doc = ''application/pdf''"
    by (simp_all add: scenario_doc_def)
  show "riskScore (analyzeFile scenario_doc calm_draws) = 0"
    unfolding plain_file_threat [OF doc_pdf_risk [OF d scenario_hashes(1)]]
    by (simp add: calm_draws_def)
  show "riskScore (analyzeFile scenario_doc high_draws) = 36"
    unfolding plain_file_threat [OF doc_pdf_risk [OF d scenario_hashes(1)]]
    by (simp add: high_draws_def)
qed

lemma scenario_note_calm: "riskScore (analyzeFile scenario_note calm_draws) = 0"
proof -
  have d: "file_name scenario_note = ''note.txt''" "file_size scenario_note = 10240"
    "file_type scenario_note = ''text/plain''"
    by (simp_all add: scenario_note_def)
  show ?thesis
    unfolding plain_file_threat [OF note_txt_risk [OF d scenario_hashes(2)]]
    by (simp add: calm_draws_def)
qed

section \<open>Properties of the history store\<close>

text \<open>
  C10. In the entry that \<^verbatim>\<open>saveHistoricalScan\<close> builds, whatever counters the session
  carries, totalFiles is the length of the list of results, threatsFound the number of
  results that are not clean, cleanFiles the number of clean results, and so totalFiles is
  the sum of threatsFound and cleanFiles.
\<close>

theorem entry_total_is_threats_plus_clean:
  "hist_totalFiles (historicalScan new_id session rs) = length rs \<and>
   hist_threatsFound (historicalScan new_id session rs) = length (filter (\<lambda>r. overallThreat r \<noteq> CLEAN) rs) \<and>
   hist_cleanFiles (historicalScan new_id session rs) = length (filter (\<lambda>r. overallThreat r = CLEAN) rs) \<and>
   hist_totalFiles (historicalScan new_id session rs) =
     hist_threatsFound (historicalScan new_id session rs) + hist_cleanFiles (historicalScan new_id session rs)"
  by (simp add: historicalScan_def Let_def length_clean_partition)

text \<open>
  C9. \<^verbatim>\<open>filterHistoryByThreatLevel("ALL")\<close> is the stored history as \<^verbatim>\<open>getHistory\<close> lists
  it; for any other level the result is the stored history restricted, in its order, to the
  entries with at least one result at that classification.
\<close>

theorem filter_ALL_is_list:
  "filterHistoryByThreatLevel st ''ALL'' = getHistory st \<and>
   (level \<noteq> ''ALL'' \<longrightarrow>
      filterHistoryByThreatLevel st level =
        filter (\<lambda>scan. \<exists>r \<in> set (results scan). threat_str (overallThreat r) = level) (getHistory st))"
  by (simp add: filterHistoryByThreatLevel_def Let_def list_ex_iff)

theorem filter_ALL_is_list_witness:
  "''MALICIOUS'' \<noteq> ''ALL'' \<and>
   filterHistoryByThreatLevel (Stored [test_entry ''hist_1'']) ''MALICIOUS'' = [test_entry ''hist_1''] \<and>
   ''SUSPICIOUS'' \<noteq> ''ALL'' \<and>
   filterHistoryByThreatLevel (Stored [test_entry ''hist_1'']) ''SUSPICIOUS'' = []"
proof -
  have ex: "(\<exists>r \<in> set (results (test_entry ''hist_1'')). threat_str (overallThreat r) = ''MALICIOUS'') = True"
    by (simp add: test_entry_def historicalScan_def Let_def testResults_def strip_content_def)
  have nex: "(\<exists>r \<in> set (results (test_entry ''hist_1'')). threat_str (overallThreat r) = ''SUSPICIOUS'') = False"
    by (simp add: test_entry_def historicalScan_def Let_def testResults_def strip_content_def)
  show ?thesis
    using filter_ALL_is_list [of "Stored [test_entry ''hist_1'']" "''MALICIOUS''"]
      filter_ALL_is_list [of "Stored [test_entry ''hist_1'']" "''SUSPICIOUS''"]
    by (simp add: getHistory_def ex nex)
qed

text \<open>
  C3, in the form that holds of the code. When the medium accepts the write, \<^verbatim>\<open>saveHistoricalScan\<close> stores the new entry
  first, followed by the entries stored before in their order, as many as the limit allows;
  on a store that holds the maximum number of entries, exactly the last (oldest) entry is
  dropped and the store keeps the maximum size.
\<close>

theorem record_prepends_and_caps:
  assumes "m (take MAX_HISTORY_ITEMS (historicalScan new_id session rs # getHistory st)) = None"
  shows "\<exists>st'. saveHistoricalScan m st new_id session rs = Inr st' \<and>
           getHistory st' = historicalScan new_id session rs # take (MAX_HISTORY_ITEMS - 1) (getHistory st) \<and>
           (length (getHistory st) = MAX_HISTORY_ITEMS \<longrightarrow>
              getHistory st' = historicalScan new_id session rs # butlast (getHistory st) \<and>
              length (getHistory st') = MAX_HISTORY_ITEMS)"
proof -
  let ?st' = "Stored (historicalScan new_id session rs # take (MAX_HISTORY_ITEMS - 1) (getHistory st))"
  have 1: "saveHistoricalScan m st new_id session rs = Inr ?st'"
    using assms by (rule saveHistoricalScan_accept)
  have 2: "getHistory ?st' = historicalScan new_id session rs # take (MAX_HISTORY_ITEMS - 1) (getHistory st)"
    by (simp add: getHistory_def)
  have 3: "take (MAX_HISTORY_ITEMS - 1) (getHistory st) = butlast (getHistory st)"
    if "length (getHistory st) = MAX_HISTORY_ITEMS"
    using that by (simp add: butlast_conv_take)
  have 4: "length (getHistory ?st') = MAX_HISTORY_ITEMS" if "length (getHistory st) = MAX_HISTORY_ITEMS"
    using that by (simp add: getHistory_def MAX_HISTORY_ITEMS_def)
  show ?thesis using 1 2 3 4 by metis
qed

theorem record_prepends_and_caps_witness:
  "unlimited (take MAX_HISTORY_ITEMS (test_entry ''hist_1'' # getHistory (Stored full_history))) = None \<and>
   length (getHistory (Stored full_history)) = MAX_HISTORY_ITEMS \<and>
   last (getHistory (Stored full_history)) = numbered_entry 0 \<and>
   (\<exists>st'. saveHistoricalScan unlimited (Stored full_history) ''hist_1'' (testSession 0) (testResults 0) = Inr st' \<and>
      getHistory st' = test_entry ''hist_1'' # map numbered_entry (rev [Suc 0..<MAX_HISTORY_ITEMS]) \<and>
      length (getHistory st') = MAX_HISTORY_ITEMS)"
proof -
  have a: "unlimited (take MAX_HISTORY_ITEMS
             (historicalScan ''hist_1'' (testSession 0) (testResults 0) # getHistory (Stored full_history))) = None"
    by (simp add: unlimited_def)
  have g: "getHistory (Stored full_history) = full_history"
    by (simp add: getHistory_def)
  have l: "length (getHistory (Stored full_history)) = MAX_HISTORY_ITEMS"
    unfolding g by (rule full_history_shape(1))
  have o: "last (getHistory (Stored full_history)) = numbered_entry 0"
    unfolding g by (rule full_history_shape(2))
  from record_prepends_and_caps [of unlimited "''hist_1''" "testSession 0" "testResults 0" "Stored full_history", OF a] l
  obtain st' where
    "saveHistoricalScan unlimited (Stored full_history) ''hist_1'' (testSession 0) (testResults 0) = Inr st'"
    "getHistory st' = historicalScan ''hist_1'' (testSession 0) (testResults 0) # butlast (getHistory (Stored full_history))"
    "length (getHistory st') = MAX_HISTORY_ITEMS"
    by blast
  then have "saveHistoricalScan unlimited (Stored full_history) ''hist_1'' (testSession 0) (testResults 0) = Inr st' \<and>
      getHistory st' = test_entry ''hist_1'' # map numbered_entry (rev [Suc 0..<MAX_HISTORY_ITEMS]) \<and>
      length (getHistory st') = MAX_HISTORY_ITEMS"
    unfolding g full_history_shape(3) test_entry_def by simp
  then have "\<exists>st'. saveHistoricalScan unlimited (Stored full_history) ''hist_1'' (testSession 0) (testResults 0) = Inr st' \<and>
      getHistory st' = test_entry ''hist_1'' # map numbered_entry (rev [Suc 0..<MAX_HISTORY_ITEMS]) \<and>
      length (getHistory st') = MAX_HISTORY_ITEMS" ..
  with a l o show ?thesis
    unfolding test_entry_def by simp
qed

text \<open>
  Without the condition on the write the store need not keep its size: on a medium whose quota
  a document of the maximum number of entries exceeds, the write of the capped list fails,
  \<^verbatim>\<open>saveHistory\<close> stores its first half, and the full store is left with 500 entries.
\<close>

theorem record_at_capacity_counterexample:
  "length (getHistory (Stored full_history)) = MAX_HISTORY_ITEMS \<and>
   MAX_HISTORY_ITEMS = 1000 \<and>
   saveHistoricalScan (quota_below MAX_HISTORY_ITEMS) (Stored full_history) ''hist_1''
       (testSession 0) (testResults 0) =
     Inr (Stored (take 500 (test_entry ''hist_1'' # full_history))) \<and>
   length (getHistory (Stored (take 500 (test_entry ''hist_1'' # full_history)))) = 500"
proof -
  let ?new = "historicalScan ''hist_1'' (testSession 0) (testResults 0)"
  let ?capped = "take MAX_HISTORY_ITEMS (?new # full_history)"
  have g: "getHistory (Stored full_history) = full_history"
    by (simp add: getHistory_def)
  have l: "length full_history = MAX_HISTORY_ITEMS"
    by (rule full_history_shape(1))
  have lc: "length ?capped = MAX_HISTORY_ITEMS"
    by (simp add: l)
  have cap: "(if length (?new # full_history) > MAX_HISTORY_ITEMS then ?capped else ?new # full_history) = ?capped"
    by (simp add: l)
  have run: "saveHistoricalScan (quota_below MAX_HISTORY_ITEMS) (Stored full_history) ''hist_1''
       (testSession 0) (testResults 0) = saveHistory (quota_below MAX_HISTORY_ITEMS) (Stored full_history) ?capped"
    unfolding saveHistoricalScan_def Let_def g cap ..
  have refused: "quota_below MAX_HISTORY_ITEMS ?capped = Some QuotaExceededError"
    unfolding quota_below_def lc by simp
  have half: "take (length ?capped div 2) ?capped = take 500 (?new # full_history)"
    unfolding lc by (simp add: MAX_HISTORY_ITEMS_def)
  have l500: "length (take 500 (?new # full_history)) = 500"
    by (simp add: l MAX_HISTORY_ITEMS_def)
  have accepted: "quota_below MAX_HISTORY_ITEMS (take 500 (?new # full_history)) = None"
    unfolding quota_below_def l500 by (simp add: MAX_HISTORY_ITEMS_def)
  have "saveHistory (quota_below MAX_HISTORY_ITEMS) (Stored full_history) ?capped =
          setItem (quota_below MAX_HISTORY_ITEMS) (Stored full_history) (take 500 (?new # full_history))"
    unfolding saveHistory_quota [of "quota_below MAX_HISTORY_ITEMS" ?capped "Stored full_history", OF refused] half ..
  also have "\<dots> = Inr (Stored (take 500 (?new # full_history)))"
    using accepted by (rule setItem_accept)
  finally have "saveHistoricalScan (quota_below MAX_HISTORY_ITEMS) (Stored full_history) ''hist_1''
       (testSession 0) (testResults 0) = Inr (Stored (take 500 (?new # full_history)))"
    unfolding run .
  moreover have "length (getHistory (Stored (take 500 (?new # full_history)))) = 500"
    using l500 by (simp add: getHistory_def)
  ultimately show ?thesis
    unfolding test_entry_def g using l by (simp add: MAX_HISTORY_ITEMS_def)
qed

text \<open>
  C6, in the form that holds of the code. When the medium accepts the write, the first entry
  that \<^verbatim>\<open>getHistory\<close> lists after \<^verbatim>\<open>saveHistoricalScan\<close> carries the threat count and the
  clean count of the supplied outcomes, and as average the rounded mean of their risk scores
  (0 when there is no outcome).
\<close>

theorem record_list_roundtrip:
  assumes "m (take MAX_HISTORY_ITEMS (historicalScan new_id session outcomes # getHistory st)) = None"
  shows "\<exists>st' e rest. saveHistoricalScan m st new_id session outcomes = Inr st' \<and>
           getHistory st' = e # rest \<and>
           hist_threatsFound e = spec_threat_count outcomes \<and>
           hist_cleanFiles e = spec_clean_count outcomes \<and>
           avgRiskScore e = (if outcomes = [] then 0 else round (spec_mean_risk outcomes))"
proof -
  let ?e = "historicalScan new_id session outcomes"
  let ?rest = "take (MAX_HISTORY_ITEMS - 1) (getHistory st)"
  have 1: "saveHistoricalScan m st new_id session outcomes = Inr (Stored (?e # ?rest))"
    using assms by (rule saveHistoricalScan_accept)
  have 2: "getHistory (Stored (?e # ?rest)) = ?e # ?rest"
    by (simp add: getHistory_def)
  have 3: "hist_threatsFound ?e = spec_threat_count outcomes"
    by (simp add: historicalScan_def Let_def spec_threat_count_def length_filter_indicator)
  have 4: "hist_cleanFiles ?e = spec_clean_count outcomes"
    by (simp add: historicalScan_def Let_def spec_clean_count_def length_filter_indicator)
  have 5: "avgRiskScore ?e = (if outcomes = [] then 0 else round (spec_mean_risk outcomes))"
    by (simp add: historicalScan_def Let_def spec_mean_risk_def Math_round_def round_def
        foldl_riskScore of_int_sum_list_map)
  show ?thesis using 1 2 3 4 5 by blast
qed

theorem record_list_roundtrip_witness:
  "testResults 0 \<noteq> [] \<and>
   unlimited (take MAX_HISTORY_ITEMS (test_entry ''hist_1'' # getHistory NoItem)) = None \<and>
   (\<exists>st' e rest. saveHistoricalScan unlimited NoItem ''hist_1'' (testSession 0) (testResults 0) = Inr st' \<and>
      getHistory st' = e # rest \<and>
      hist_threatsFound e = 1 \<and> hist_cleanFiles e = 1 \<and> avgRiskScore e = 50)"
proof -
  have a: "unlimited (take MAX_HISTORY_ITEMS
             (historicalScan ''hist_1'' (testSession 0) (testResults 0) # getHistory NoItem)) = None"
    by (simp add: unlimited_def)
  have n: "testResults 0 \<noteq> []"
    by (simp add: testResults_def)
  have t: "spec_threat_count (testResults 0) = 1"
    by (simp add: spec_threat_count_def testResults_def)
  have c: "spec_clean_count (testResults 0) = 1"
    by (simp add: spec_clean_count_def testResults_def)
  have m: "round (spec_mean_risk (testResults 0)) = 50"
    by (simp add: spec_mean_risk_def testResults_def)
  from record_list_roundtrip [of unlimited "''hist_1''" "testSession 0" "testResults 0" NoItem, OF a] n a show ?thesis
    unfolding t c m test_entry_def [symmetric] by auto
qed

text \<open>
  Without the condition on the write the entry need not be listed: on an empty store whose
  medium refuses every document that is not empty, the write of the one-entry list fails,
  \<^verbatim>\<open>saveHistory\<close> stores the empty first half, and \<^verbatim>\<open>getHistory\<close> lists nothing.
\<close>

theorem record_list_counterexample:
  "saveHistoricalScan (quota_below 1) NoItem ''hist_1'' (testSession 0) (testResults 0) = Inr (Stored []) \<and>
   getHistory (Stored []) = []"
  by (simp add: saveHistoricalScan_def saveHistory_def setItem_def quota_below_def getHistory_def
      MAX_HISTORY_ITEMS_def Let_def)




text \<open>
  C4. On \<^verbatim>\<open>QuotaExceededError\<close> \<^verbatim>\<open>saveHistory\<close> writes the first half of the list instead,
  once. That second write is not guarded: on a medium without quota its exception leaves
  \<^verbatim>\<open>saveHistory\<close> and the operation that called it.
\<close>

theorem saveHistory_retry_raises:
  "saveHistory no_quota NoItem [test_entry ''hist_1'', test_entry ''hist_2''] = Inl QuotaExceededError \<and>
   saveHistoricalScan no_quota NoItem ''hist_1'' (testSession 0) (testResults 0) = Inl QuotaExceededError"
  by (simp add: saveHistoricalScan_def saveHistory_def setItem_def no_quota_def getHistory_def
      MAX_HISTORY_ITEMS_def Let_def)

section \<open>Properties of the analysis engine\<close>

text \<open>
  C1. Every session snapshot that \<^verbatim>\<open>analyzeFiles\<close> publishes satisfies
  threatsFound + cleanFiles \<open>\<le>\<close> completedFiles \<open>\<le>\<close> totalFiles, with equality of the sum
  and completedFiles once completedFiles has reached totalFiles; the last snapshot is the final
  session, and there completedFiles = totalFiles = the number of files.
\<close>

theorem session_counters:
  "(\<forall>s \<in> set (analyzeFiles_published sid now envs fs).
      threatsFound s + cleanFiles s \<le> completedFiles s \<and> completedFiles s \<le> totalFiles s \<and>
      (completedFiles s = totalFiles s \<longrightarrow> threatsFound s + cleanFiles s = completedFiles s)) \<and>
   last (analyzeFiles_published sid now envs fs) = analyzeFiles_final sid now envs fs \<and>
   completedFiles (analyzeFiles_final sid now envs fs) = totalFiles (analyzeFiles_final sid now envs fs) \<and>
   totalFiles (analyzeFiles_final sid now envs fs) = length fs"
proof -
  define s0 where "s0 = \<lparr>session_id = sid, files = [], session_startTime = now,
                     totalFiles = length fs, completedFiles = 0, threatsFound = 0, cleanFiles = 0\<rparr>"
  have run: "analyzeFiles_run sid now envs fs = files_loop envs 0 fs (s0, [s0])"
    by (simp add: analyzeFiles_run_def s0_def Let_def)
  have a: "threatsFound s0 + cleanFiles s0 = completedFiles s0"
    and b: "completedFiles s0 + length fs = totalFiles s0"
    and t: "totalFiles s0 = length fs"
    by (simp_all add: s0_def)
  have c: "\<forall>x \<in> set [s0]. threatsFound x + cleanFiles x = completedFiles x \<and> completedFiles x \<le> totalFiles x"
    by (simp add: s0_def)
  have pub: "\<forall>x \<in> set (analyzeFiles_published sid now envs fs).
               threatsFound x + cleanFiles x = completedFiles x \<and> completedFiles x \<le> totalFiles x"
    unfolding analyzeFiles_published_def run by (rule files_loop_published [OF a b c])
  have fin: "completedFiles (analyzeFiles_final sid now envs fs) = totalFiles s0"
      "totalFiles (analyzeFiles_final sid now envs fs) = totalFiles s0"
    unfolding analyzeFiles_final_def run using files_loop_final [OF a b, of envs 0 "[s0]"] by simp_all
  have lst: "last (analyzeFiles_published sid now envs fs) = analyzeFiles_final sid now envs fs"
    unfolding analyzeFiles_published_def analyzeFiles_final_def run
    using files_loop_last [of "[s0]" s0 envs 0 fs] by simp
  from pub have "\<forall>s \<in> set (analyzeFiles_published sid now envs fs).
      threatsFound s + cleanFiles s \<le> completedFiles s \<and> completedFiles s \<le> totalFiles s \<and>
      (completedFiles s = totalFiles s \<longrightarrow> threatsFound s + cleanFiles s = completedFiles s)"
    by simp
  with lst fin t show ?thesis by simp
qed

theorem session_counters_witness:
  "last (analyzeFiles_published ''session_1'' 0 calm_envs [scenario_doc])
     \<in> set (analyzeFiles_published ''session_1'' 0 calm_envs [scenario_doc]) \<and>
   completedFiles (last (analyzeFiles_published ''session_1'' 0 calm_envs [scenario_doc])) =
     totalFiles (last (analyzeFiles_published ''session_1'' 0 calm_envs [scenario_doc])) \<and>
   threatsFound (last (analyzeFiles_published ''session_1'' 0 calm_envs [scenario_doc])) +
     cleanFiles (last (analyzeFiles_published ''session_1'' 0 calm_envs [scenario_doc])) = 1"
proof -
  have ne: "analyzeFiles_published ''session_1'' 0 calm_envs [scenario_doc] \<noteq> []"
    by (simp add: analyzeFiles_published_def analyzeFiles_run_def Let_def)
  then have m: "last (analyzeFiles_published ''session_1'' 0 calm_envs [scenario_doc])
     \<in> set (analyzeFiles_published ''session_1'' 0 calm_envs [scenario_doc])"
    by (rule last_in_set)
  from session_counters [of "''session_1''" 0 calm_envs "[scenario_doc]"] m
  show ?thesis by auto
qed

text \<open>
  C2. The risk score of every analysed file is an integer between 0 and 100, its
  classification is the one the breakpoints 80, 60, 30 assign to that score, and a file with a
  score at least as high is classified at least as high.
\<close>

theorem classification_by_score:
  "0 \<le> riskScore (analyzeFile f env) \<and> riskScore (analyzeFile f env) \<le> 100 \<and>
   overallThreat (analyzeFile f env) = spec_classification (riskScore (analyzeFile f env)) \<and>
   (riskScore (analyzeFile f env) \<le> riskScore (analyzeFile f' env') \<longrightarrow>
      threat_rank (overallThreat (analyzeFile f env)) \<le> threat_rank (overallThreat (analyzeFile f' env')))"
proof -
  have c: "overallThreat (analyzeFile g e) = spec_classification (riskScore (analyzeFile g e))" for g e
    unfolding spec_classification_def by (rule analyzeFile_overallThreat)
  show ?thesis
    using analyzeFile_riskScore_range [of f env] spec_classification_mono
    by (simp add: c)
qed

theorem classification_by_score_witness:
  "riskScore (analyzeFile scenario_doc high_draws) \<le> riskScore (analyzeFile scenario_backdoor calm_draws) \<and>
   threat_rank (overallThreat (analyzeFile scenario_doc high_draws))
     \<le> threat_rank (overallThreat (analyzeFile scenario_backdoor calm_draws)) \<and>
   riskScore (analyzeFile scenario_doc high_draws) = 36 \<and>
   overallThreat (analyzeFile scenario_doc high_draws) = SUSPICIOUS"
proof -
  have le: "riskScore (analyzeFile scenario_doc high_draws) \<le> riskScore (analyzeFile scenario_backdoor calm_draws)"
    by (simp add: scenario_doc_scores scenario_backdoor_calm)
  from classification_by_score [of scenario_doc high_draws scenario_backdoor calm_draws] le
  have "threat_rank (overallThreat (analyzeFile scenario_doc high_draws))
          \<le> threat_rank (overallThreat (analyzeFile scenario_backdoor calm_draws))"
    and "overallThreat (analyzeFile scenario_doc high_draws) =
          spec_classification (riskScore (analyzeFile scenario_doc high_draws))"
    by blast+
  with le show ?thesis
    by (simp add: scenario_doc_scores spec_classification_def)
qed

text \<open>
  C5. The progress values \<^verbatim>\<open>analyzeFile\<close> publishes are 0, 10, 30, 50, 70, 90, 90: the
  loop \<^verbatim>\<open>for (progress = 10; progress <= 100; progress += 20)\<close> ends after 90, and the
  completed result is published with progress 90. No published value is 100.
\<close>

theorem progress_stops_at_90:
  "map scanProgress (analyzeFile_published f env) = [0, 10, 30, 50, 70, 90, 90] \<and>
   scanProgress (analyzeFile f env) = 90 \<and>
   status (analyzeFile f env) = COMPLETED \<and>
   100 \<notin> set (map scanProgress (analyzeFile_published f env))"
  by (simp add: published_progress analyzeFile_def analyzeFile_run_def Let_def
      calculateFinalRisk_scanProgress scan_loop_progress)

text \<open>
  C7, in the form that holds of the code. For files named doc.pdf (51200 bytes, declared application/pdf), note.txt
  (10240 bytes, declared text/plain), neither with a hash on the list of malicious hashes, and
  backdoor.exe: backdoor.exe is classified malicious or critical whatever is drawn; when for
  neither of the other two files both the entropy draw exceeds 7.5 / 8 and the
  suspicious-strings draw exceeds 0.8, those two are clean and the session ends with
  threatsFound = 1, cleanFiles = 2, completedFiles = 3.
\<close>

theorem scenario_three_files:
  assumes h1: "file_name f1 = ''doc.pdf''" "file_size f1 = 51200" "file_type f1 = ''application/pdf''"
      "file_hash f1 \<notin> set maliciousHashes"
    and h2: "file_name f2 = ''note.txt''" "file_size f2 = 10240" "file_type f2 = ''text/plain''"
      "file_hash f2 \<notin> set maliciousHashes"
    and h3: "file_name f3 = ''backdoor.exe''"
    and draws1: "rnd_entropy (envs 0) * 8 \<le> 75 / 10 \<or> rnd_strings (envs 0) \<le> 8 / 10"
    and draws2: "rnd_entropy (envs 1) * 8 \<le> 75 / 10 \<or> rnd_strings (envs 1) \<le> 8 / 10"
  shows "overallThreat (analyzeFile f3 (envs 2)) \<in> {MALICIOUS, CRITICAL} \<and>
         map overallThreat (files (analyzeFiles_final sid now envs [f1, f2, f3])) =
           [CLEAN, CLEAN, overallThreat (analyzeFile f3 (envs 2))] \<and>
         threatsFound (analyzeFiles_final sid now envs [f1, f2, f3]) = 1 \<and>
         cleanFiles (analyzeFiles_final sid now envs [f1, f2, f3]) = 2 \<and>
         completedFiles (analyzeFiles_final sid now envs [f1, f2, f3]) = 3"
proof -
  have t1: "overallThreat (analyzeFile f1 (envs 0)) = CLEAN"
    by (rule plain_file_clean [OF doc_pdf_risk [OF h1] draws1])
  have t2: "overallThreat (analyzeFile f2 (envs 1)) = CLEAN"
    by (rule plain_file_clean [OF note_txt_risk [OF h2] draws2])
  have t3: "overallThreat (analyzeFile f3 (envs 2)) \<in> {MALICIOUS, CRITICAL}"
    by (rule backdoor_exe_threat [OF h3])
  then have n3: "overallThreat (analyzeFile f3 (envs 2)) \<noteq> CLEAN"
    by auto
  show ?thesis
    using three_files_counters [OF t1 t2 refl, of sid now] t3 n3 by simp
qed

theorem scenario_three_files_witness:
  "file_name scenario_doc = ''doc.pdf'' \<and> file_size scenario_doc = 51200 \<and>
   file_type scenario_doc = ''application/pdf'' \<and> file_hash scenario_doc \<notin> set maliciousHashes \<and>
   file_name scenario_note = ''note.txt'' \<and> file_size scenario_note = 10240 \<and>
   file_type scenario_note = ''text/plain'' \<and> file_hash scenario_note \<notin> set maliciousHashes \<and>
   file_name scenario_backdoor = ''backdoor.exe'' \<and>
   (rnd_entropy (calm_envs 0) * 8 \<le> 75 / 10 \<or> rnd_strings (calm_envs 0) \<le> 8 / 10) \<and>
   (rnd_entropy (calm_envs 1) * 8 \<le> 75 / 10 \<or> rnd_strings (calm_envs 1) \<le> 8 / 10) \<and>
   map overallThreat (files (analyzeFiles_final ''session_1'' 0 calm_envs
     [scenario_doc, scenario_note, scenario_backdoor])) = [CLEAN, CLEAN, CRITICAL] \<and>
   threatsFound (analyzeFiles_final ''session_1'' 0 calm_envs
     [scenario_doc, scenario_note, scenario_backdoor]) = 1 \<and>
   cleanFiles (analyzeFiles_final ''session_1'' 0 calm_envs
     [scenario_doc, scenario_note, scenario_backdoor]) = 2 \<and>
   completedFiles (analyzeFiles_final ''session_1'' 0 calm_envs
     [scenario_doc, scenario_note, scenario_backdoor]) = 3"
proof -
  have d: "file_name scenario_doc = ''doc.pdf''" "file_size scenario_doc = 51200"
    "file_type scenario_doc = ''application/pdf''" "file_hash scenario_doc \<notin> set maliciousHashes"
    using scenario_hashes(1) by (simp_all add: scenario_doc_def)
  have n: "file_name scenario_note = ''note.txt''" "file_size scenario_note = 10240"
    "file_type scenario_note = ''text/plain''" "file_hash scenario_note \<notin> set maliciousHashes"
    using scenario_hashes(2) by (simp_all add: scenario_note_def)
  have b: "file_name scenario_backdoor = ''backdoor.exe''"
    by (simp add: scenario_backdoor_def)
  have e0: "rnd_entropy (calm_envs 0) * 8 \<le> 75 / 10 \<or> rnd_strings (calm_envs 0) \<le> 8 / 10"
    by (simp add: calm_envs_def calm_draws_def)
  have e1: "rnd_entropy (calm_envs 1) * 8 \<le> 75 / 10 \<or> rnd_strings (calm_envs 1) \<le> 8 / 10"
    by (simp add: calm_envs_def calm_draws_def)
  have c: "overallThreat (analyzeFile scenario_backdoor (calm_envs 2)) = CRITICAL"
    by (simp add: calm_envs_def analyzeFile_overallThreat scenario_backdoor_calm)
  from scenario_three_files [OF d n b e0 e1, of "''session_1''" 0] d n b e0 e1
  show ?thesis unfolding c by simp
qed

text \<open>
  Without the condition on the draws the outcome differs: when both random detections fire
  for doc.pdf its score is 36, it is classified suspicious, and the session ends with two
  threats and one clean file.
\<close>

theorem scenario_counterexample:
  "map overallThreat (files (analyzeFiles_final ''session_1'' 0 unlucky_envs
     [scenario_doc, scenario_note, scenario_backdoor])) = [SUSPICIOUS, CLEAN, CRITICAL] \<and>
   threatsFound (analyzeFiles_final ''session_1'' 0 unlucky_envs
     [scenario_doc, scenario_note, scenario_backdoor]) = 2 \<and>
   cleanFiles (analyzeFiles_final ''session_1'' 0 unlucky_envs
     [scenario_doc, scenario_note, scenario_backdoor]) = 1 \<and>
   completedFiles (analyzeFiles_final ''session_1'' 0 unlucky_envs
     [scenario_doc, scenario_note, scenario_backdoor]) = 3"
proof -
  have t1: "overallThreat (analyzeFile scenario_doc (unlucky_envs 0)) = SUSPICIOUS"
    by (simp add: unlucky_envs_def analyzeFile_overallThreat scenario_doc_scores)
  have t2: "overallThreat (analyzeFile scenario_note (unlucky_envs 1)) = CLEAN"
    by (simp add: unlucky_envs_def analyzeFile_overallThreat scenario_note_calm)
  have t3: "overallThreat (analyzeFile scenario_backdoor (unlucky_envs 2)) = CRITICAL"
    by (simp add: unlucky_envs_def analyzeFile_overallThreat scenario_backdoor_calm)
  show ?thesis
    using three_files_counters [OF t1 t2 t3, of "''session_1''" 0] by simp
qed

end
